theory Spec2Isabelle
  imports Complex_Main
begin

section \<open>The language-model notebook: data\<close>

text \<open>
  The notebook \<^verbatim>\<open>docs/examples/language_model/language_model.ipynb\<close> defines five
  functions (\<^verbatim>\<open>detach\<close>, \<^verbatim>\<open>evaluate\<close>, \<^verbatim>\<open>train\<close>, \<^verbatim>\<open>get_batch\<close>,
  \<^verbatim>\<open>evaluate_cache\<close>) around calls into MXNet and GluonNLP. The functions are embedded
  here as they are written; the framework is a parameter.

  Conventions. Python integers are \<open>int\<close> (or \<open>nat\<close> where the notebook only ever counts);
  floating-point numbers are idealised as \<open>real\<close>; an exception is a value of type
  \<open>error\<close>; a two-dimensional token array (time steps by batch columns) is a record of
  its rows, its number of columns and the device it lives on.
\<close>

datatype error =
    MXNetError string
  | ZeroDivisionError
  | AttributeError
  | IndexError
  | ValueError

datatype ctx = Cpu nat | Gpu nat

record tokens =
  nd_rows :: "nat list list"
  nd_cols :: nat
  nd_ctx :: ctx

definition len :: "tokens \<Rightarrow> int" where
  "len a = int (length (nd_rows a))"

definition nd_size :: "tokens \<Rightarrow> nat" where
  "nd_size a = length (nd_rows a) * nd_cols a"

text \<open>
  \<^verbatim>\<open>a[lo:hi]\<close> along the first axis, with Python's treatment of bounds: a negative
  bound counts from the end, and both bounds are clamped to the array.
\<close>

definition slice_bound :: "int \<Rightarrow> int \<Rightarrow> int" where
  "slice_bound n k = (if k < 0 then max (k + n) 0 else min k n)"

definition py_slice :: "tokens \<Rightarrow> int \<Rightarrow> int \<Rightarrow> tokens" where
  "py_slice a lo hi =
     (let n = len a; l = slice_bound n lo; h = slice_bound n hi
      in a\<lparr>nd_rows := take (nat (h - l)) (drop (nat l) (nd_rows a))\<rparr>)"

subsection \<open>\<^verbatim>\<open>get_batch\<close>\<close>

text \<open>
  \<^verbatim>\<open>
  def get_batch(data_source, i, seq_len=None):
      seq_len = min(seq_len if seq_len else bptt, len(data_source) - 1 - i)
      data = data_source[i:i + seq_len]
      target = data_source[i + 1:i + 1 + seq_len]
      return data, target
  \<close>
  \<^verbatim>\<open>bptt\<close> is a global of the notebook (35, set to 2000 before this cell); it is the
  first argument here. \<^verbatim>\<open>seq_len if seq_len\<close> is false for \<^verbatim>\<open>None\<close> and for 0.
\<close>

definition get_batch :: "int \<Rightarrow> tokens \<Rightarrow> int \<Rightarrow> int option \<Rightarrow> tokens \<times> tokens" where
  "get_batch bptt data_source i seq_len =
     (let seq_len' =
            min (case seq_len of None \<Rightarrow> bptt | Some s \<Rightarrow> if s \<noteq> 0 then s else bptt)
                (len data_source - 1 - i);
          data = py_slice data_source i (i + seq_len');
          target = py_slice data_source (i + 1) (i + 1 + seq_len')
      in (data, target))"

section \<open>The framework as a parameter\<close>

text \<open>
  Every call into MXNet or GluonNLP is an entry of a log. The framework itself is a
  record of functions that answer a call from the log of everything that happened before
  it: an answer is a result or an exception. Nothing else is assumed of the framework,
  so a theorem about a notebook function holds for every deterministic behaviour of the
  library, the model passed as first argument and the global trainer and loss included.

  Opaque arrays (hidden states, model outputs, gradient buffers) are values of a type
  variable \<open>'n\<close>. Loss vectors are lists of reals, one entry per token. A hidden state
  is an array or a tuple (or list) of hidden states.
\<close>

datatype 'n hidden = Arr 'n | Tup "'n hidden list"

datatype 'n call =
    CollectParams
  | BeginState nat ctx
  | SplitAndLoad tokens "ctx list" nat bool
  | NdDetach 'n
  | AsInContext tokens ctx
  | Forward tokens "'n hidden"
  | CacheForward tokens tokens "'n option" "'n option" "'n hidden"
  | Loss 'n tokens
  | LossAsInContext "real list" ctx
  | Backward "real list"
  | Grad string ctx
  | ClipGlobalNorm "'n list" real
  | TrainerStep nat
  | AsScalar
  | WaitAll
  | SaveParameters string
  | SetLearningRate real

text \<open>
  What the notebook prints. The throughput figures, which divide by elapsed wall-clock
  time, are left out of the reports.
\<close>

datatype report =
    TrainLog nat nat nat real real
  | EpochThroughput nat
  | ValidReport nat real real
  | TestReport real real
  | LearningRateNow real
  | TotalThroughput
  | CacheBatch int real

datatype 'n entry =
    Done "'n call"
  | Raised "'n call" error
  | Enter
  | Exit
  | Printed report

record 'n framework =
  fw_collect_params :: "'n entry list \<Rightarrow> 'n call \<Rightarrow> error + string list"
  fw_begin_state :: "'n entry list \<Rightarrow> 'n call \<Rightarrow> error + 'n hidden"
  fw_split_and_load :: "'n entry list \<Rightarrow> 'n call \<Rightarrow> error + tokens list"
  fw_nd_detach :: "'n entry list \<Rightarrow> 'n call \<Rightarrow> error + 'n"
  fw_forward :: "'n entry list \<Rightarrow> 'n call \<Rightarrow> error + ('n \<times> 'n hidden)"
  fw_cache_forward ::
    "'n entry list \<Rightarrow> 'n call \<Rightarrow> error + (real list \<times> 'n option \<times> 'n option \<times> 'n hidden)"
  fw_loss :: "'n entry list \<Rightarrow> 'n call \<Rightarrow> error + real list"
  fw_grad :: "'n entry list \<Rightarrow> 'n call \<Rightarrow> error + 'n"
  fw_effect :: "'n entry list \<Rightarrow> 'n call \<Rightarrow> error + unit"

text \<open>
  A notebook function is a run: from the log so far to a result or an exception, and the
  log extended by what it did. \<open>invoke\<close> is one framework call; \<open>then_do\<close> is sequencing,
  in which an exception ends the run; \<open>recording\<close> is the block
  \<^verbatim>\<open>with autograd.record():\<close>, whose exit is logged on every way out.
\<close>

type_synonym ('n, 'a) run = "'n entry list \<Rightarrow> (error + 'a) \<times> 'n entry list"

definition ret :: "'a \<Rightarrow> ('n, 'a) run" where
  "ret x = (\<lambda>lg. (Inr x, lg))"

definition raise :: "error \<Rightarrow> ('n, 'a) run" where
  "raise e = (\<lambda>lg. (Inl e, lg))"

definition then_do :: "('n, 'a) run \<Rightarrow> ('a \<Rightarrow> ('n, 'b) run) \<Rightarrow> ('n, 'b) run" where
  "then_do m f =
     (\<lambda>lg. case m lg of (Inl e, lg') \<Rightarrow> (Inl e, lg') | (Inr x, lg') \<Rightarrow> f x lg')"

definition invoke :: "('n entry list \<Rightarrow> 'n call \<Rightarrow> error + 'a) \<Rightarrow> 'n call \<Rightarrow> ('n, 'a) run" where
  "invoke op c =
     (\<lambda>lg. case op lg c of
               Inl e \<Rightarrow> (Inl e, lg @ [Raised c e])
             | Inr x \<Rightarrow> (Inr x, lg @ [Done c]))"

definition printed :: "report \<Rightarrow> ('n, unit) run" where
  "printed r = (\<lambda>lg. (Inr (), lg @ [Printed r]))"

definition recording :: "('n, 'a) run \<Rightarrow> ('n, 'a) run" where
  "recording m = (\<lambda>lg. case m (lg @ [Enter]) of (r, lg') \<Rightarrow> (r, lg' @ [Exit]))"

primrec map_run :: "('a \<Rightarrow> ('n, 'b) run) \<Rightarrow> 'a list \<Rightarrow> ('n, 'b list) run" where
  "map_run f [] = ret []"
| "map_run f (x # xs) =
     then_do (f x) (\<lambda>y. then_do (map_run f xs) (\<lambda>ys. ret (y # ys)))"

section \<open>The notebook's functions\<close>

subsection \<open>\<^verbatim>\<open>detach\<close>\<close>

text \<open>
  \<^verbatim>\<open>
  def detach(hidden):
      if isinstance(hidden, (tuple, list)):
          hidden = [detach(i) for i in hidden]
      else:
          hidden = hidden.detach()
      return hidden
  \<close>
  \<open>detach_list\<close> is the list comprehension, left to right.
\<close>

primrec detach :: "'n framework \<Rightarrow> 'n hidden \<Rightarrow> ('n, 'n hidden) run"
  and detach_list :: "'n framework \<Rightarrow> 'n hidden list \<Rightarrow> ('n, 'n hidden list) run" where
  "detach fw (Arr a) = then_do (invoke (fw_nd_detach fw) (NdDetach a)) (\<lambda>a'. ret (Arr a'))"
| "detach fw (Tup hs) = then_do (detach_list fw hs) (\<lambda>hs'. ret (Tup hs'))"
| "detach_list fw [] = ret []"
| "detach_list fw (h # hs) =
     then_do (detach fw h) (\<lambda>h'. then_do (detach_list fw hs) (\<lambda>hs'. ret (h' # hs')))"

subsection \<open>\<^verbatim>\<open>evaluate\<close>\<close>

text \<open>
  \<^verbatim>\<open>
  def evaluate(model, data_source, batch_size, ctx):
      total_L = 0.0
      ntotal = 0
      hidden = model.begin_state(
          batch_size=batch_size, func=mx.nd.zeros, ctx=ctx)
      for i, (data, target) in enumerate(data_source):
          data = data.as_in_context(ctx)
          target = target.as_in_context(ctx)
          output, hidden = model(data, hidden)
          hidden = detach(hidden)
          L = loss(output.reshape(-3, -1), target.reshape(-1))
          total_L += mx.nd.sum(L).asscalar()
          ntotal += L.size
      return total_L / ntotal
  \<close>
  The two reshapes and the loss are one call, \<open>Loss\<close>; \<^verbatim>\<open>mx.nd.sum(L).asscalar()\<close> is
  the call \<open>AsScalar\<close>, where the engine reports what failed since the last
  synchronisation, and its value is the sum of the loss vector. The final division raises
  when nothing was counted.
\<close>

fun evaluate_loop ::
  "'n framework \<Rightarrow> ctx \<Rightarrow> (tokens \<times> tokens) list \<Rightarrow> real \<times> nat \<times> 'n hidden
     \<Rightarrow> ('n, real \<times> nat \<times> 'n hidden) run" where
  "evaluate_loop fw c [] s = ret s"
| "evaluate_loop fw c ((data, target) # rest) (total_L, ntotal, hidden) =
     then_do (invoke (fw_effect fw) (AsInContext data c)) (\<lambda>_.
     then_do (invoke (fw_effect fw) (AsInContext target c)) (\<lambda>_.
     then_do (invoke (fw_forward fw) (Forward (data\<lparr>nd_ctx := c\<rparr>) hidden)) (\<lambda>(output, hidden').
     then_do (detach fw hidden') (\<lambda>hidden''.
     then_do (invoke (fw_loss fw) (Loss output (target\<lparr>nd_ctx := c\<rparr>))) (\<lambda>L.
     then_do (invoke (fw_effect fw) AsScalar) (\<lambda>_.
     evaluate_loop fw c rest (total_L + sum_list L, ntotal + length L, hidden'')))))))"

definition evaluate ::
  "'n framework \<Rightarrow> (tokens \<times> tokens) list \<Rightarrow> nat \<Rightarrow> ctx \<Rightarrow> ('n, real) run" where
  "evaluate fw data_source batch_size c =
     then_do (invoke (fw_begin_state fw) (BeginState batch_size c)) (\<lambda>hidden.
     then_do (evaluate_loop fw c data_source (0, 0, hidden)) (\<lambda>(total_L, ntotal, _).
     if ntotal = 0 then raise ZeroDivisionError else ret (total_L / real ntotal)))"

subsection \<open>\<^verbatim>\<open>evaluate_cache\<close>\<close>

text \<open>
  \<^verbatim>\<open>range(0, stop, step)\<close>: a zero step raises \<^verbatim>\<open>ValueError\<close>.
\<close>

definition py_range0 :: "int \<Rightarrow> int \<Rightarrow> error + int list" where
  "py_range0 stop step =
     (if step = 0 then Inl ValueError
      else if 0 < step then Inr (map (\<lambda>k. int k * step) [0 ..< nat ((stop + step - 1) div step)])
      else Inr (map (\<lambda>k. int k * step) [0 ..< nat ((stop + step + 1) div step)]))"

text \<open>
  \<^verbatim>\<open>
  def evaluate_cache(model, data_source, batch_size, ctx):
      total_L = 0.0
      hidden = model.begin_state(
          batch_size=batch_size, func=mx.nd.zeros, ctx=ctx)
      next_word_history = None
      cache_history = None
      for i in range(0, len(data_source) - 1, bptt):
          if i > 0:
              print('Batch %d, ppl %f' % (i, math.exp(total_L / i)))
          if i == bptt:
              return total_L / i
          data, target = get_batch(data_source, i)
          data = data.as_in_context(ctx)
          target = target.as_in_context(ctx)
          L = 0
          outs, next_word_history, cache_history, hidden = model(
              data, target, next_word_history, cache_history, hidden)
          for out in outs:
              L += (-mx.nd.log(out)).asscalar()
          total_L += L / data.shape[1]
          hidden = detach(hidden)
      return total_L / len(data_source)
  \<close>
  The cache cell answers with \<^verbatim>\<open>outs\<close>, one probability per target token; each is read
  with \<open>AsScalar\<close>. An array has at least one column in MXNet; the division by
  \<^verbatim>\<open>data.shape[1]\<close> raises here for a zero.
\<close>

datatype ('r, 's) flow = Returned 'r | Fell 's

primrec outs_loop :: "'n framework \<Rightarrow> real list \<Rightarrow> real \<Rightarrow> ('n, real) run" where
  "outs_loop fw [] L = ret L"
| "outs_loop fw (out # outs) L =
     then_do (invoke (fw_effect fw) AsScalar) (\<lambda>_. outs_loop fw outs (L + (- ln out)))"

fun cache_loop ::
  "'n framework \<Rightarrow> int \<Rightarrow> tokens \<Rightarrow> ctx \<Rightarrow> int list
     \<Rightarrow> real \<times> 'n option \<times> 'n option \<times> 'n hidden
     \<Rightarrow> ('n, (real, real \<times> 'n option \<times> 'n option \<times> 'n hidden) flow) run" where
  "cache_loop fw bptt data_source c [] s = ret (Fell s)"
| "cache_loop fw bptt data_source c (i # is) (total_L, next_word_history, cache_history, hidden) =
     then_do (if 0 < i then printed (CacheBatch i (exp (total_L / real_of_int i))) else ret ()) (\<lambda>_.
     if i = bptt then
       (if i = 0 then raise ZeroDivisionError else ret (Returned (total_L / real_of_int i)))
     else
       (case get_batch bptt data_source i None of (data, target) \<Rightarrow>
     then_do (invoke (fw_effect fw) (AsInContext data c)) (\<lambda>_.
     then_do (invoke (fw_effect fw) (AsInContext target c)) (\<lambda>_.
     then_do (invoke (fw_cache_forward fw)
                (CacheForward (data\<lparr>nd_ctx := c\<rparr>) (target\<lparr>nd_ctx := c\<rparr>)
                   next_word_history cache_history hidden))
       (\<lambda>(outs, next_word_history', cache_history', hidden').
     then_do (outs_loop fw outs 0) (\<lambda>L.
     if nd_cols data = 0 then raise ZeroDivisionError
     else
     then_do (detach fw hidden') (\<lambda>hidden''.
     cache_loop fw bptt data_source c is
       (total_L + L / real (nd_cols data), next_word_history', cache_history', hidden''))))))))"

definition evaluate_cache ::
  "'n framework \<Rightarrow> int \<Rightarrow> tokens \<Rightarrow> nat \<Rightarrow> ctx \<Rightarrow> ('n, real) run" where
  "evaluate_cache fw bptt data_source batch_size c =
     then_do (invoke (fw_begin_state fw) (BeginState batch_size c)) (\<lambda>hidden.
     case py_range0 (len data_source - 1) bptt of
       Inl e \<Rightarrow> raise e
     | Inr indices \<Rightarrow>
         then_do (cache_loop fw bptt data_source c indices (0, None, None, hidden)) (\<lambda>r.
         case r of
           Returned v \<Rightarrow> ret v
         | Fell (total_L, _) \<Rightarrow>
             if len data_source = 0 then raise ZeroDivisionError
             else ret (total_L / real_of_int (len data_source))))"

subsection \<open>\<^verbatim>\<open>train\<close>\<close>

text \<open>
  The globals \<^verbatim>\<open>train\<close> reads: \<^verbatim>\<open>context\<close>, \<^verbatim>\<open>batch_size\<close>, \<^verbatim>\<open>log_interval\<close>,
  \<^verbatim>\<open>grad_clip\<close>, \<^verbatim>\<open>model_name\<close> and \<^verbatim>\<open>dataset_name\<close>.
\<close>

record globals =
  g_context :: "ctx list"
  g_batch_size :: nat
  g_log_interval :: nat
  g_grad_clip :: real
  g_model_name :: string
  g_dataset_name :: string

text \<open>
  Arithmetic on loss vectors: division by a number, and addition, which broadcasts a
  vector of one element and refuses other shapes that differ. \<open>None\<close> is the Python
  number 0 that \<^verbatim>\<open>L\<close> starts from.
\<close>

definition nd_div :: "real list \<Rightarrow> real \<Rightarrow> real list" where
  "nd_div v c = map (\<lambda>x. x / c) v"

definition nd_add :: "real list option \<Rightarrow> real list \<Rightarrow> error + real list" where
  "nd_add L v =
     (case L of
        None \<Rightarrow> Inr v
      | Some a \<Rightarrow>
          if length a = length v then Inr (map2 (+) a v)
          else if length a = 1 then Inr (map (\<lambda>x. hd a + x) v)
          else if length v = 1 then Inr (map (\<lambda>x. x + hd v) a)
          else Inl (MXNetError ''broadcast_add: incompatible shapes''))"

text \<open>
  \<^verbatim>\<open>'%d'\<close> of a natural number, and the name of the checkpoint file,
  \<^verbatim>\<open>'{}_{}-{}.params'.format(model_name, dataset_name, epoch)\<close>.
\<close>

fun str_nat :: "nat \<Rightarrow> string" where
  "str_nat n =
     (if n < 10 then [char_of (48 + n)] else str_nat (n div 10) @ [char_of (48 + n mod 10)])"

definition params_file :: "globals \<Rightarrow> nat \<Rightarrow> string" where
  "params_file g epoch =
     g_model_name g @ ''_'' @ g_dataset_name g @ ''-'' @ str_nat epoch @ ''.params''"

text \<open>
  The body of \<^verbatim>\<open>with autograd.record():\<close>, one iteration per device. \<open>weighted\<close> is
  \<^verbatim>\<open>batch_L / (len(context) * X.size)\<close>, which the body computes twice.
  \<^verbatim>\<open>
  for j, (X, y, h) in enumerate(zip(data_list, target_list, hiddens)):
      output, h = model(X, h)
      batch_L = loss(output.reshape(-3, -1), y.reshape(-1,))
      L = L + batch_L.as_in_context(context[0]) / (len(context) * X.size)
      Ls.append(batch_L / (len(context) * X.size))
      hiddens[j] = h
  \<close>
\<close>

definition weighted :: "globals \<Rightarrow> real list \<Rightarrow> tokens \<Rightarrow> real list" where
  "weighted g batch_L X = nd_div batch_L (real (length (g_context g) * nd_size X))"

fun device_loop ::
  "'n framework \<Rightarrow> globals \<Rightarrow> nat \<Rightarrow> (tokens \<times> tokens \<times> 'n hidden) list
     \<Rightarrow> real list option \<times> real list list \<times> 'n hidden list
     \<Rightarrow> ('n, real list option \<times> real list list \<times> 'n hidden list) run" where
  "device_loop fw g j [] s = ret s"
| "device_loop fw g j ((X, y, h) # rest) (L, Ls, hiddens) =
     then_do (invoke (fw_forward fw) (Forward X h)) (\<lambda>(output, h').
     then_do (invoke (fw_loss fw) (Loss output y)) (\<lambda>batch_L.
     case g_context g of
       [] \<Rightarrow> raise IndexError
     | c0 # _ \<Rightarrow>
     then_do (invoke (fw_effect fw) (LossAsInContext batch_L c0)) (\<lambda>_.
     case nd_add L (weighted g batch_L X) of
       Inl e \<Rightarrow> raise e
     | Inr L' \<Rightarrow>
         device_loop fw g (Suc j) rest
           (Some L', Ls @ [weighted g batch_L X], hiddens[j := h']))))"

text \<open>
  \<^verbatim>\<open>grads = [p.grad(x.context) for p in parameters for x in data_list]\<close> and
  \<^verbatim>\<open>sum([mx.nd.sum(l).asscalar() for l in Ls])\<close>.
\<close>

definition collect_grads :: "'n framework \<Rightarrow> string list \<Rightarrow> tokens list \<Rightarrow> ('n, 'n list) run" where
  "collect_grads fw parameters data_list =
     map_run (\<lambda>(p, x). invoke (fw_grad fw) (Grad p (nd_ctx x))) (List.product parameters data_list)"

definition sum_scalars :: "'n framework \<Rightarrow> real list list \<Rightarrow> ('n, real) run" where
  "sum_scalars fw Ls =
     then_do (map_run (\<lambda>l. then_do (invoke (fw_effect fw) AsScalar) (\<lambda>_. ret (sum_list l))) Ls)
       (\<lambda>xs. ret (sum_list xs))"

text \<open>
  One iteration of the loop over \<^verbatim>\<open>train_data\<close>, on batch number \<open>i\<close> of epoch \<open>epoch\<close>;
  \<open>n\<close> is \<^verbatim>\<open>len(train_data)\<close>. The state carried from batch to batch is \<^verbatim>\<open>total_L\<close> and
  \<^verbatim>\<open>hiddens\<close>.
  \<^verbatim>\<open>
  data_list = gluon.utils.split_and_load(data, context, batch_axis=1, even_split=True)
  target_list = gluon.utils.split_and_load(target, context, batch_axis=1, even_split=True)
  hiddens = detach(hiddens)
  L = 0
  Ls = []
  with autograd.record():
      ...
  L.backward()
  grads = [p.grad(x.context) for p in parameters for x in data_list]
  gluon.utils.clip_global_norm(grads, grad_clip)

  trainer.step(1)

  total_L += sum([mx.nd.sum(l).asscalar() for l in Ls])

  if i % log_interval == 0 and i > 0:
      cur_L = total_L / log_interval
      print('[Epoch %d Batch %d/%d] loss %.2f, ppl %.2f, ...' % (
          epoch, i, len(train_data), cur_L, math.exp(cur_L), ...))
      total_L = 0.0
  \<close>
\<close>

definition train_batch ::
  "'n framework \<Rightarrow> globals \<Rightarrow> string list \<Rightarrow> nat \<Rightarrow> nat \<Rightarrow> nat \<Rightarrow> tokens \<times> tokens
     \<Rightarrow> real \<times> 'n hidden list \<Rightarrow> ('n, real \<times> 'n hidden list) run" where
  "train_batch fw g parameters epoch n i batch s =
     (case (batch, s) of ((data, target), (total_L, hiddens)) \<Rightarrow>
     then_do (invoke (fw_split_and_load fw) (SplitAndLoad data (g_context g) 1 True)) (\<lambda>data_list.
     then_do (invoke (fw_split_and_load fw) (SplitAndLoad target (g_context g) 1 True)) (\<lambda>target_list.
     then_do (detach_list fw hiddens) (\<lambda>hiddens'.
     then_do (recording
                (device_loop fw g 0 (zip data_list (zip target_list hiddens')) (None, [], hiddens')))
       (\<lambda>(L, Ls, hiddens'').
     case L of
       None \<Rightarrow> raise AttributeError
     | Some Lv \<Rightarrow>
     then_do (invoke (fw_effect fw) (Backward Lv)) (\<lambda>_.
     then_do (collect_grads fw parameters data_list) (\<lambda>grads.
     then_do (invoke (fw_effect fw) (ClipGlobalNorm grads (g_grad_clip g))) (\<lambda>_.
     then_do (invoke (fw_effect fw) (TrainerStep 1)) (\<lambda>_.
     then_do (sum_scalars fw Ls) (\<lambda>l.
     if g_log_interval g = 0 then raise ZeroDivisionError
     else if i mod g_log_interval g = 0 \<and> 0 < i then
       then_do (printed (TrainLog epoch i n
                  ((total_L + l) / real (g_log_interval g))
                  (exp ((total_L + l) / real (g_log_interval g)))))
         (\<lambda>_. ret (0, hiddens''))
     else ret (total_L + l, hiddens'')))))))))))"

fun train_batches ::
  "'n framework \<Rightarrow> globals \<Rightarrow> string list \<Rightarrow> nat \<Rightarrow> nat \<Rightarrow> nat \<Rightarrow> (tokens \<times> tokens) list
     \<Rightarrow> real \<times> 'n hidden list \<Rightarrow> ('n, real \<times> 'n hidden list) run" where
  "train_batches fw g parameters epoch n i [] s = ret s"
| "train_batches fw g parameters epoch n i (batch # rest) s =
     then_do (train_batch fw g parameters epoch n i batch s)
       (train_batches fw g parameters epoch n (Suc i) rest)"

text \<open>
  The end of an epoch, after the validation loss is known. \<open>None\<close> is the starting
  \<^verbatim>\<open>best_val = float("Inf")\<close>.
  \<^verbatim>\<open>
  if val_L < best_val:
      best_val = val_L
      test_L = evaluate(model, test_data, batch_size, context[0])
      model.save_parameters('{}_{}-{}.params'.format(model_name, dataset_name, epoch))
      print('test loss %.2f, test ppl %.2f'%(test_L, math.exp(test_L)))
  else:
      lr = lr*0.25
      print('Learning rate now %f'%(lr))
      trainer.set_learning_rate(lr)
  \<close>
\<close>

definition epoch_end ::
  "'n framework \<Rightarrow> globals \<Rightarrow> (tokens \<times> tokens) list \<Rightarrow> nat \<Rightarrow> real
     \<Rightarrow> real option \<times> real \<Rightarrow> ('n, real option \<times> real) run" where
  "epoch_end fw g test_data epoch val_L s =
     (case s of (best_val, lr) \<Rightarrow>
     if (case best_val of None \<Rightarrow> True | Some b \<Rightarrow> val_L < b) then
       then_do (case g_context g of
                  [] \<Rightarrow> raise IndexError
                | c0 # _ \<Rightarrow> evaluate fw test_data (g_batch_size g) c0) (\<lambda>test_L.
       then_do (invoke (fw_effect fw) (SaveParameters (params_file g epoch))) (\<lambda>_.
       then_do (printed (TestReport test_L (exp test_L))) (\<lambda>_.
       ret (Some val_L, lr))))
     else
       then_do (printed (LearningRateNow (lr * 0.25))) (\<lambda>_.
       then_do (invoke (fw_effect fw) (SetLearningRate (lr * 0.25))) (\<lambda>_.
       ret (best_val, lr * 0.25))))"

text \<open>
  One epoch:
  \<^verbatim>\<open>
  total_L = 0.0
  hiddens = [model.begin_state(batch_size//len(context), func=mx.nd.zeros, ctx=ctx)
             for ctx in context]
  for i, (data, target) in enumerate(train_data):
      ...
  mx.nd.waitall()
  print('[Epoch %d] throughput %.2f samples/s' % ...)
  val_L = evaluate(model, val_data, batch_size, context[0])
  print('[Epoch %d] time cost %.2fs, valid loss %.2f, valid ppl %.2f'%(
      epoch, time.time()-start_epoch_time, val_L, math.exp(val_L)))
  \<close>
  and then the end of the epoch above.
\<close>

definition train_epoch ::
  "'n framework \<Rightarrow> globals \<Rightarrow> string list
     \<Rightarrow> (tokens \<times> tokens) list \<Rightarrow> (tokens \<times> tokens) list \<Rightarrow> (tokens \<times> tokens) list
     \<Rightarrow> nat \<Rightarrow> real option \<times> real \<Rightarrow> ('n, real option \<times> real) run" where
  "train_epoch fw g parameters train_data val_data test_data epoch s =
     then_do (map_run (\<lambda>c. invoke (fw_begin_state fw)
                             (BeginState (g_batch_size g div length (g_context g)) c))
                (g_context g)) (\<lambda>hiddens.
     then_do (train_batches fw g parameters epoch (length train_data) 0 train_data (0, hiddens)) (\<lambda>_.
     then_do (invoke (fw_effect fw) WaitAll) (\<lambda>_.
     then_do (printed (EpochThroughput epoch)) (\<lambda>_.
     then_do (case g_context g of
                [] \<Rightarrow> raise IndexError
              | c0 # _ \<Rightarrow> evaluate fw val_data (g_batch_size g) c0) (\<lambda>val_L.
     then_do (printed (ValidReport epoch val_L (exp val_L))) (\<lambda>_.
     epoch_end fw g test_data epoch val_L s))))))"

text \<open>
  \<^verbatim>\<open>
  def train(model, train_data, val_data, test_data, epochs, lr):
      best_val = float("Inf")
      start_train_time = time.time()
      parameters = model.collect_params().values()
      for epoch in range(epochs):
          ...
      print('Total training throughput %.2f samples/s' % ...)
  \<close>
  A parameter is known by its name.
\<close>

fun epochs_loop ::
  "'n framework \<Rightarrow> globals \<Rightarrow> string list
     \<Rightarrow> (tokens \<times> tokens) list \<Rightarrow> (tokens \<times> tokens) list \<Rightarrow> (tokens \<times> tokens) list
     \<Rightarrow> nat list \<Rightarrow> real option \<times> real \<Rightarrow> ('n, real option \<times> real) run" where
  "epochs_loop fw g parameters train_data val_data test_data [] s = ret s"
| "epochs_loop fw g parameters train_data val_data test_data (epoch # rest) s =
     then_do (train_epoch fw g parameters train_data val_data test_data epoch s)
       (epochs_loop fw g parameters train_data val_data test_data rest)"

definition train ::
  "'n framework \<Rightarrow> globals
     \<Rightarrow> (tokens \<times> tokens) list \<Rightarrow> (tokens \<times> tokens) list \<Rightarrow> (tokens \<times> tokens) list
     \<Rightarrow> nat \<Rightarrow> real \<Rightarrow> ('n, unit) run" where
  "train fw g train_data val_data test_data epochs lr =
     then_do (invoke (fw_collect_params fw) CollectParams) (\<lambda>parameters.
     then_do (epochs_loop fw g parameters train_data val_data test_data [0 ..< epochs] (None, lr))
       (\<lambda>_. printed TotalThroughput))"

section \<open>Reading the log\<close>

text \<open>
  A log is clean when no call in it raised. A log has failed with \<open>e\<close> when the first
  call that raised in it raised \<open>e\<close> and nothing was called after it: only exits of
  recording blocks follow. A run propagates exceptions when, from a clean log, it returns
  normally only with a clean log and, when it ends in an exception \<open>e\<close>, either the log is
  still clean (the exception is one of the interpreter's own, such as a division by zero)
  or the log has failed with \<open>e\<close>.
\<close>

fun is_raised :: "'n entry \<Rightarrow> bool" where
  "is_raised (Raised c e) = True"
| "is_raised _ = False"

definition clean :: "'n entry list \<Rightarrow> bool" where
  "clean lg = list_all (\<lambda>x. \<not> is_raised x) lg"



text \<open>The arrays of a hidden state, left to right.\<close>

primrec leaves :: "'n hidden \<Rightarrow> 'n list" where
  "leaves (Arr a) = [a]"
| "leaves (Tup hs) = concat (map leaves hs)"

text \<open>
  The windows a log shows the cache cell was called on, the entries that are calls of
  \<^verbatim>\<open>NDArray.detach\<close>, and the set of arrays that \<^verbatim>\<open>NDArray.detach\<close> can return.
\<close>

fun cache_window :: "'n entry \<Rightarrow> (tokens \<times> tokens) list" where
  "cache_window (Done (CacheForward d t nwh ch h)) = [(d, t)]"
| "cache_window _ = []"

definition cache_windows :: "'n entry list \<Rightarrow> (tokens \<times> tokens) list" where
  "cache_windows lg = concat (map cache_window lg)"

fun is_detach :: "'n entry \<Rightarrow> bool" where
  "is_detach (Done (NdDetach a)) = True"
| "is_detach _ = False"

text \<open>
  The steps of a training iteration that a log shows, in the order they happened; the
  forward passes with the window and the hidden state each was given; the per-device
  loss vectors, read where each is copied to the first device; and the losses that were
  backpropagated.
\<close>

datatype step =
    RecordEnter
  | ForwardPass
  | LossComputation
  | RecordExit
  | Backpropagation
  | GradientClipping
  | OptimizerStep

fun step_of :: "'n entry \<Rightarrow> step list" where
  "step_of Enter = [RecordEnter]"
| "step_of Exit = [RecordExit]"
| "step_of (Done (Forward X h)) = [ForwardPass]"
| "step_of (Done (Loss out y)) = [LossComputation]"
| "step_of (Done (Backward L)) = [Backpropagation]"
| "step_of (Done (ClipGlobalNorm gs c)) = [GradientClipping]"
| "step_of (Done (TrainerStep k)) = [OptimizerStep]"
| "step_of _ = []"

definition steps :: "'n entry list \<Rightarrow> step list" where
  "steps lg = concat (map step_of lg)"

fun forward_call :: "'n entry \<Rightarrow> (tokens \<times> 'n hidden) list" where
  "forward_call (Done (Forward X h)) = [(X, h)]"
| "forward_call _ = []"

definition forward_calls :: "'n entry list \<Rightarrow> (tokens \<times> 'n hidden) list" where
  "forward_calls lg = concat (map forward_call lg)"

fun loss_value :: "'n entry \<Rightarrow> real list list" where
  "loss_value (Done (LossAsInContext batch_L c)) = [batch_L]"
| "loss_value _ = []"

definition loss_values :: "'n entry list \<Rightarrow> real list list" where
  "loss_values lg = concat (map loss_value lg)"



text \<open>The sum \<^verbatim>\<open>L + v1 + v2 + ...\<close> of loss vectors, from the left.\<close>

fun nd_sum :: "real list option \<Rightarrow> real list list \<Rightarrow> error + real list option" where
  "nd_sum L [] = Inr L"
| "nd_sum L (v # vs) = (case nd_add L v of Inl e \<Rightarrow> Inl e | Inr L' \<Rightarrow> nd_sum (Some L') vs)"



text \<open>
  The contracts of \<^verbatim>\<open>NDArray.detach\<close> and of \<^verbatim>\<open>split_and_load\<close> along the batch axis.
  \<open>depth a\<close> stands for the number of time steps of recorded computation behind the array
  \<open>a\<close>: a detached array has none. A split along axis 1 keeps the time axis: every slice
  has the rows of the batch. A hidden state is detached when all its arrays are.
\<close>

definition detach_contract :: "'n framework \<Rightarrow> ('n \<Rightarrow> nat) \<Rightarrow> bool" where
  "detach_contract fw depth =
     (\<forall>lg a b. fw_nd_detach fw lg (NdDetach a) = Inr b \<longrightarrow> depth b = 0)"

definition split_contract :: "'n framework \<Rightarrow> bool" where
  "split_contract fw =
     (\<forall>lg d cs xs. fw_split_and_load fw lg (SplitAndLoad d cs 1 True) = Inr xs \<longrightarrow>
        list_all (\<lambda>x. length (nd_rows x) = length (nd_rows d)) xs)"

definition detached :: "('n \<Rightarrow> nat) \<Rightarrow> 'n hidden \<Rightarrow> bool" where
  "detached depth h = list_all (\<lambda>a. depth a = 0) (leaves h)"

text \<open>The checkpoints written and the learning rates set that a log shows.\<close>

fun checkpoint :: "'n entry \<Rightarrow> string list" where
  "checkpoint (Done (SaveParameters f)) = [f]"
| "checkpoint _ = []"

definition checkpoints :: "'n entry list \<Rightarrow> string list" where
  "checkpoints lg = concat (map checkpoint lg)"

fun learning_rate :: "'n entry \<Rightarrow> real list" where
  "learning_rate (Done (SetLearningRate r)) = [r]"
| "learning_rate _ = []"

definition learning_rates :: "'n entry list \<Rightarrow> real list" where
  "learning_rates lg = concat (map learning_rate lg)"

text \<open>A run grows the log: it only appends to it.\<close>

definition grows :: "('n, 'a) run \<Rightarrow> bool" where
  "grows m = (\<forall>lg. \<exists>d. snd (m lg) = lg @ d)"

section \<open>A framework to run the functions on\<close>

text \<open>
  The notebook's settings for its first model, and a small framework for concrete runs.
  In \<open>fw_demo\<close> an array is the number of time steps of recorded computation behind it:
  fresh and detached arrays carry none, and a forward pass over a window adds the length
  of the window to what its hidden state carried. It splits a batch over one device,
  every token costs a loss of 1, and the cache cell gives every target probability 1.
\<close>

definition notebook_globals :: globals where
  "notebook_globals =
     \<lparr>g_context = [Gpu 0], g_batch_size = 20, g_log_interval = 200, g_grad_clip = 0.25,
      g_model_name = ''standard_lstm_lm_200'', g_dataset_name = ''wikitext-2''\<rparr>"

definition unexpected :: error where
  "unexpected = MXNetError ''unexpected call''"

definition fw_demo :: "nat framework" where
  "fw_demo =
     \<lparr>fw_collect_params = (\<lambda>lg c. Inr [''weight'']),
      fw_begin_state = (\<lambda>lg c. Inr (Tup [Arr 0, Arr 0])),
      fw_split_and_load = (\<lambda>lg c. case c of
          SplitAndLoad d cs axis ev \<Rightarrow> Inr (map (\<lambda>x. d\<lparr>nd_ctx := x\<rparr>) cs)
        | _ \<Rightarrow> Inl unexpected),
      fw_nd_detach = (\<lambda>lg c. Inr 0),
      fw_forward = (\<lambda>lg c. case c of
          Forward X h \<Rightarrow>
            Inr (foldr max (leaves h) 0 + length (nd_rows X),
                 Tup [Arr (foldr max (leaves h) 0 + length (nd_rows X)),
                      Arr (foldr max (leaves h) 0 + length (nd_rows X))])
        | _ \<Rightarrow> Inl unexpected),
      fw_cache_forward = (\<lambda>lg c. case c of
          CacheForward d t nwh ch h \<Rightarrow> Inr (map (\<lambda>r. 1) (nd_rows t), None, None, h)
        | _ \<Rightarrow> Inl unexpected),
      fw_loss = (\<lambda>lg c. case c of
          Loss out y \<Rightarrow> Inr (replicate (nd_size y) 1)
        | _ \<Rightarrow> Inl unexpected),
      fw_grad = (\<lambda>lg c. Inr 0),
      fw_effect = (\<lambda>lg c. Inr ())\<rparr>"

text \<open>
  A cache cell that looks at its targets: a target row \<open>[7]\<close> gets probability
  \<open>exp (-1)\<close>, every other row probability 1. The two sources below have 2002 rows and
  differ in the row of index 2000 only.
\<close>

definition fw_probe :: "nat framework" where
  "fw_probe =
     fw_demo\<lparr>fw_cache_forward := (\<lambda>lg c. case c of
          CacheForward d t nwh ch h \<Rightarrow>
            Inr (map (\<lambda>r. if r = [7] then exp (- 1) else 1) (nd_rows t), None, None, h)
        | _ \<Rightarrow> Inl unexpected)\<rparr>"

definition source_a :: tokens where
  "source_a = \<lparr>nd_rows = replicate 2002 [0], nd_cols = 1, nd_ctx = Cpu 0\<rparr>"

definition source_b :: tokens where
  "source_b = \<lparr>nd_rows = replicate 2000 [0] @ [[7], [0]], nd_cols = 1, nd_ctx = Cpu 0\<rparr>"

definition source_5 :: tokens where
  "source_5 = \<lparr>nd_rows = [[10], [11], [12], [13], [14]], nd_cols = 1, nd_ctx = Cpu 0\<rparr>"




definition demo_batch :: "tokens \<times> tokens" where
  "demo_batch =
     (\<lparr>nd_rows = [[1], [2]], nd_cols = 1, nd_ctx = Cpu 0\<rparr>,
      \<lparr>nd_rows = [[2], [3]], nd_cols = 1, nd_ctx = Cpu 0\<rparr>)"

section \<open>Runs and their logs\<close>

subsection \<open>Laws of runs\<close>

text \<open>
  How a run is applied to a log, the laws of sequencing, and what a normal return of a
  composed run says about its parts.
\<close>

lemma ret_apply: "ret x lg = (Inr x, lg)"
  by (simp add: ret_def)

lemma raise_apply: "raise e lg = (Inl e, lg)"
  by (simp add: raise_def)

lemma printed_apply: "printed r lg = (Inr (), lg @ [Printed r])"
  by (simp add: printed_def)

lemma then_do_Inr: "m lg = (Inr x, l) \<Longrightarrow> then_do m f lg = f x l"
  by (simp add: then_do_def)

lemma then_do_Inl: "m lg = (Inl e, l) \<Longrightarrow> then_do m f lg = (Inl e, l)"
  by (simp add: then_do_def)

lemma then_do_InrE:
  assumes "then_do m f lg = (Inr y, l2)"
  obtains x l1 where "m lg = (Inr x, l1)" and "f x l1 = (Inr y, l2)"
  using assms by (auto simp: then_do_def split: prod.splits sum.splits)

lemma invoke_Inr: "op lg c = Inr x \<Longrightarrow> invoke op c lg = (Inr x, lg @ [Done c])"
  by (simp add: invoke_def)

lemma invoke_Inl: "op lg c = Inl e \<Longrightarrow> invoke op c lg = (Inl e, lg @ [Raised c e])"
  by (simp add: invoke_def)

lemma invoke_InrE:
  assumes "invoke op c lg = (Inr x, l)"
  obtains "op lg c = Inr x" and "l = lg @ [Done c]"
  using assms by (auto simp: invoke_def split: sum.splits)

lemma then_do_assoc: "then_do (then_do m f) k = then_do m (\<lambda>x. then_do (f x) k)"
  by (auto simp: then_do_def fun_eq_iff split: prod.splits sum.splits)

lemma then_do_ret: "then_do (ret x) f = f x"
  by (simp add: then_do_def ret_def)

lemma then_do_raise: "then_do (raise e) f = raise e"
  by (simp add: then_do_def raise_def)

lemma then_do_if: "then_do (if b then m1 else m2) f = (if b then then_do m1 f else then_do m2 f)"
  by simp

lemma then_do_case_prod:
  "then_do (case p of (a, b) \<Rightarrow> m a b) f = (case p of (a, b) \<Rightarrow> then_do (m a b) f)"
  by (cases p) simp

lemmas run_laws = then_do_assoc then_do_ret then_do_raise then_do_if then_do_case_prod

lemmas run_defs = then_do_def invoke_def recording_def ret_def raise_def printed_def

lemma then_do_Inr_iff:
  "(then_do m f lg = (Inr y, l2)) = (\<exists>x l1. m lg = (Inr x, l1) \<and> f x l1 = (Inr y, l2))"
  by (auto simp: then_do_def split: prod.splits sum.splits)

lemma invoke_Inr_iff:
  "(invoke op c lg = (Inr x, l)) = (op lg c = Inr x \<and> l = lg @ [Done c])"
  by (auto simp: invoke_def split: sum.splits)

lemma ret_Inr_iff: "(ret x lg = (Inr y, l)) = (y = x \<and> l = lg)"
  by (auto simp: ret_def)

lemma raise_Inr_iff: "(raise e lg = (Inr y, l)) = False"
  by (simp add: raise_def)

lemma printed_Inr_iff: "(printed r lg = (Inr u, l)) = (l = lg @ [Printed r])"
  by (auto simp: printed_def)

lemma recording_Inr_iff:
  "(recording m lg = (Inr x, l)) = (\<exists>l1. m (lg @ [Enter]) = (Inr x, l1) \<and> l = l1 @ [Exit])"
  by (auto simp: recording_def split: prod.splits)

lemmas success_iffs =
  then_do_Inr_iff invoke_Inr_iff ret_Inr_iff raise_Inr_iff printed_Inr_iff recording_Inr_iff

lemma case_sum_Inr_iff:
  "((case r of Inl e \<Rightarrow> raise e | Inr x \<Rightarrow> f x) lg = (Inr y, l))
     = (\<exists>x. r = Inr x \<and> f x lg = (Inr y, l))"
  by (cases r) (simp_all add: raise_def)

lemma case_list_Inr_iff:
  "((case cs of [] \<Rightarrow> raise e | c0 # rest \<Rightarrow> f c0 rest) lg = (Inr y, l))
     = (\<exists>c0 rest. cs = c0 # rest \<and> f c0 rest lg = (Inr y, l))"
  by (cases cs) (simp_all add: raise_def)

lemma case_option_Inr_iff:
  "((case L of None \<Rightarrow> raise e | Some v \<Rightarrow> f v) lg = (Inr y, l))
     = (\<exists>v. L = Some v \<and> f v lg = (Inr y, l))"
  by (cases L) (simp_all add: raise_def)

lemma if_raise_Inr_iff:
  "((if b then raise e else m) lg = (Inr y, l)) = (\<not> b \<and> m lg = (Inr y, l))"
  by (simp add: raise_def)

lemmas branch_iffs = case_sum_Inr_iff case_list_Inr_iff case_option_Inr_iff if_raise_Inr_iff

subsection \<open>Exceptions propagate\<close>

text \<open>
  Every way of building a run keeps the property, so every function of the notebook has
  it: none of them has a handler.
\<close>

lemma clean_append [simp]: "clean (xs @ ys) = (clean xs \<and> clean ys)"
  by (simp add: clean_def)

lemma clean_simps [simp]:
  "clean []" "clean (Done c # xs) = clean xs" "clean (Enter # xs) = clean xs"
  "clean (Exit # xs) = clean xs" "clean (Printed r # xs) = clean xs"
  "\<not> clean (Raised c e # xs)"
  by (simp_all add: clean_def)
























subsection \<open>The log only grows\<close>

lemma grows_ret: "grows (ret x)"
  by (simp add: grows_def ret_def)

lemma grows_raise: "grows (raise e)"
  by (simp add: grows_def raise_def)

lemma grows_printed: "grows (printed r)"
  by (simp add: grows_def printed_def)

lemma grows_invoke: "grows (invoke op c)"
  by (simp add: grows_def invoke_def split: sum.splits)

lemma grows_then_do:
  assumes "grows m" and "\<And>x. grows (f x)"
  shows "grows (then_do m f)"
  unfolding grows_def
proof
  fix lg :: "'a entry list"
  obtain r l where m: "m lg = (r, l)" by (cases "m lg")
  from assms(1) m obtain d where l: "l = lg @ d" by (auto simp: grows_def dest!: spec[where x=lg])
  show "\<exists>d. snd (then_do m f lg) = lg @ d"
  proof (cases r)
    case (Inl e)
    then show ?thesis using m l by (simp add: then_do_def)
  next
    case (Inr x)
    from assms(2)[of x] obtain d' where "snd (f x l) = l @ d'"
      by (auto simp: grows_def dest!: spec[where x=l])
    then show ?thesis using m l Inr by (simp add: then_do_def)
  qed
qed

lemma grows_recording: "grows m \<Longrightarrow> grows (recording m)"
  unfolding grows_def recording_def
proof
  fix lg :: "'a entry list"
  assume "\<forall>lg. \<exists>d. snd (m lg) = lg @ d"
  then obtain d where "snd (m (lg @ [Enter])) = (lg @ [Enter]) @ d" by blast
  then show "\<exists>d. snd (case m (lg @ [Enter]) of (r, lg') \<Rightarrow> (r, lg' @ [Exit])) = lg @ d"
    by (auto split: prod.splits)
qed

lemma grows_map_run: "(\<And>x. grows (f x)) \<Longrightarrow> grows (map_run f xs)"
  by (induction xs) (simp_all add: grows_ret grows_then_do)

lemma grows_detach: "grows (detach fw h)" "grows (detach_list fw hs)"
  by (induction h and hs rule: detach.induct detach_list.induct)
     (simp_all add: grows_ret grows_then_do grows_invoke)

lemmas grows_intros =
  grows_ret grows_raise grows_printed grows_invoke grows_then_do grows_recording grows_map_run
  grows_detach

lemma grows_evaluate_loop: "grows (evaluate_loop fw c batches s)"
  by (induction fw c batches s rule: evaluate_loop.induct)
     (simp_all add: grows_intros split: prod.splits)

lemma grows_evaluate: "grows (evaluate fw data_source batch_size c)"
  unfolding evaluate_def
  by (simp add: grows_intros grows_evaluate_loop split: prod.splits)

lemma grows_device_loop: "grows (device_loop fw g j xs s)"
  by (induction fw g j xs s rule: device_loop.induct)
     (simp_all add: grows_intros split: prod.splits list.splits sum.splits)

lemma grows_train_batch: "grows (train_batch fw g parameters epoch n i batch s)"
  unfolding train_batch_def collect_grads_def sum_scalars_def
  by (simp add: grows_intros grows_device_loop split: prod.splits option.splits)

lemma grows_train_batches: "grows (train_batches fw g parameters epoch n i batches s)"
  by (induction batches arbitrary: i s)
     (simp_all add: grows_intros grows_train_batch)

lemma grows_epoch_end: "grows (epoch_end fw g test_data epoch val_L s)"
  unfolding epoch_end_def
  by (simp add: grows_intros grows_evaluate split: prod.splits option.splits list.splits)

lemma grows_train_epoch:
  "grows (train_epoch fw g parameters train_data val_data test_data epoch s)"
  unfolding train_epoch_def
  by (simp add: grows_intros grows_evaluate grows_train_batches
      grows_epoch_end split: list.splits)

lemma grows_epochs_loop:
  "grows (epochs_loop fw g parameters train_data val_data test_data es s)"
  by (induction es arbitrary: s) (simp_all add: grows_intros grows_train_epoch)


subsection \<open>What a log shows\<close>

text \<open>
  The readings of a log distribute over its parts; calls of \<^verbatim>\<open>detach\<close>, reads of scalars
  and reads of gradients show nothing in them.
\<close>

lemma steps_simps:
  "steps [] = []" "steps (x # xs) = step_of x @ steps xs" "steps (xs @ ys) = steps xs @ steps ys"
  by (simp_all add: steps_def)

lemma forward_calls_simps:
  "forward_calls [] = []" "forward_calls (x # xs) = forward_call x @ forward_calls xs"
  "forward_calls (xs @ ys) = forward_calls xs @ forward_calls ys"
  by (simp_all add: forward_calls_def)

lemma loss_values_simps:
  "loss_values [] = []" "loss_values (x # xs) = loss_value x @ loss_values xs"
  "loss_values (xs @ ys) = loss_values xs @ loss_values ys"
  by (simp_all add: loss_values_def)




lemma cache_windows_append: "cache_windows (xs @ ys) = cache_windows xs @ cache_windows ys"
  by (simp add: cache_windows_def)

lemma cache_windows_Nil: "cache_windows [] = []"
  by (simp add: cache_windows_def)

lemma cache_windows_Cons: "cache_windows (x # xs) = cache_window x @ cache_windows xs"
  by (simp add: cache_windows_def)

lemmas cache_windows_simps = cache_windows_append cache_windows_Nil cache_windows_Cons

lemma detach_entries_silent:
  assumes "list_all is_detach d"
  shows "steps d = []" and "forward_calls d = []" and "loss_values d = []"
proof -
  have "\<forall>x \<in> set d. step_of x = [] \<and> forward_call x = [] \<and> loss_value x = []"
  proof
    fix x assume "x \<in> set d"
    then have "is_detach x" using assms by (simp add: list_all_iff)
    then show "step_of x = [] \<and> forward_call x = [] \<and> loss_value x = []"
      by (cases x rule: is_detach.cases) simp_all
  qed
  then show "steps d = []" and "forward_calls d = []" and "loss_values d = []"
    by (simp_all add: steps_def forward_calls_def loss_values_def)
qed

lemma scalar_entries_silent:
  "steps (replicate k (Done AsScalar)) = []"
  "forward_calls (replicate k (Done AsScalar)) = []"
  "loss_values (replicate k (Done AsScalar)) = []"
  by (induction k) (simp_all add: steps_simps forward_calls_simps loss_values_simps)

lemma grad_entries_silent:
  "steps (map (\<lambda>(p, x). Done (Grad p (nd_ctx x))) pxs) = []"
  "forward_calls (map (\<lambda>(p, x). Done (Grad p (nd_ctx x))) pxs) = []"
  "loss_values (map (\<lambda>(p, x). Done (Grad p (nd_ctx x))) pxs) = []"
  by (induction pxs) (auto simp: steps_simps forward_calls_simps loss_values_simps)


lemma cache_windows_detach: "list_all is_detach d \<Longrightarrow> cache_windows d = []"
proof (induction d)
  case Nil
  then show ?case by (simp add: cache_windows_def)
next
  case (Cons x d)
  then have "is_detach x" by simp
  then have "cache_window x = []" by (cases x rule: is_detach.cases) simp_all
  with Cons show ?case by (simp add: cache_windows_def)
qed

lemma cache_windows_scalars: "cache_windows (replicate k (Done AsScalar)) = []"
  by (induction k) (simp_all add: cache_windows_def)

subsection \<open>Detaching a hidden state\<close>

lemma detach_success:
  "detach fw h lg = (Inr h', lg') \<Longrightarrow>
     (\<exists>d. lg' = lg @ d \<and> list_all is_detach d)
     \<and> (\<forall>a \<in> set (leaves h'). \<exists>l b. fw_nd_detach fw l (NdDetach b) = Inr a)"
  "detach_list fw hs lg = (Inr hs', lg') \<Longrightarrow>
     (\<exists>d. lg' = lg @ d \<and> list_all is_detach d)
     \<and> (\<forall>h' \<in> set hs'. \<forall>a \<in> set (leaves h'). \<exists>l b. fw_nd_detach fw l (NdDetach b) = Inr a)
     \<and> length hs' = length hs"
proof (induction h and hs arbitrary: h' lg lg' and hs' lg lg' rule: detach.induct detach_list.induct)
  case (Arr a)
  then show ?case
    by (auto elim!: then_do_InrE invoke_InrE simp: ret_apply) blast
next
  case (Tup hs)
  from Tup.prems obtain hs' where
    a: "detach_list fw hs lg = (Inr hs', lg')" and h': "h' = Tup hs'"
    by (auto elim!: then_do_InrE simp: ret_apply)
  from Tup.IH[OF a] show ?case using h' by auto
next
  case Nil_hidden
  then show ?case by (simp add: ret_apply)
next
  case (Cons_hidden h hs)
  from Cons_hidden.prems obtain x l1 xs where
    a: "detach fw h lg = (Inr x, l1)" and
    b: "detach_list fw hs l1 = (Inr xs, lg')" and c: "hs' = x # xs"
    by (auto elim!: then_do_InrE simp: ret_apply)
  from Cons_hidden.IH(1)[OF a] Cons_hidden.IH(2)[OF b] show ?case using c by auto
qed

lemma detach_list_detached:
  assumes "detach_contract fw depth" and "detach_list fw hs lg = (Inr hs', lg')"
  shows "list_all (detached depth) hs'"
proof -
  from detach_success(2)[OF assms(2)] have
    "\<forall>h' \<in> set hs'. \<forall>a \<in> set (leaves h'). \<exists>l b. fw_nd_detach fw l (NdDetach b) = Inr a"
    by blast
  with assms(1) show ?thesis
    unfolding detach_contract_def detached_def list_all_iff by blast
qed

lemma detach_detached:
  assumes "detach_contract fw depth" and "detach fw h lg = (Inr h', lg')"
  shows "detached depth h'"
proof -
  from detach_success(1)[OF assms(2)] have
    "\<forall>a \<in> set (leaves h'). \<exists>l b. fw_nd_detach fw l (NdDetach b) = Inr a"
    by blast
  with assms(1) show ?thesis
    unfolding detach_contract_def detached_def list_all_iff by blast
qed

subsection \<open>The cache evaluation\<close>

text \<open>
  On a source longer than \<open>bptt + 1\<close> the loop meets \<open>i = bptt\<close> at its second index and
  returns; on a shorter source of at least two rows it has one index. Either way
  \<^verbatim>\<open>evaluate_cache\<close> is one window, written out below.
\<close>

lemma py_range0_long:
  assumes "0 < bptt" and "bptt + 1 < n"
  shows "\<exists>rest. py_range0 (n - 1) bptt = Inr (0 # bptt # rest)"
proof -
  define k where "k = nat ((n - 1 + bptt - 1) div bptt)"
  have "2 * bptt \<le> n - 1 + bptt - 1" using assms by simp
  then have "(2 * bptt) div bptt \<le> (n - 1 + bptt - 1) div bptt"
    using assms(1) by (intro zdiv_mono1) simp_all
  then have "2 \<le> (n - 1 + bptt - 1) div bptt"
    using assms(1) by simp
  then have k: "2 \<le> k" by (simp add: k_def)
  then obtain k' where "k = Suc (Suc k')" by (metis add_2_eq_Suc le_Suc_ex)
  then have "[0 ..< k] = 0 # 1 # [2 ..< k]"
    by (simp add: upt_conv_Cons numeral_2_eq_2)
  then show ?thesis using assms(1) by (simp add: py_range0_def k_def)
qed

lemma cache_loop_second_window:
  "0 < bptt \<Longrightarrow>
   cache_loop fw bptt ds c (bptt # rest) (t, nwh, ch, h) =
     then_do (printed (CacheBatch bptt (exp (t / real_of_int bptt))))
       (\<lambda>_. ret (Returned (t / real_of_int bptt)))"
  by simp

lemma get_batch_first:
  assumes "0 < bptt" and "bptt + 1 < len ds"
  shows "get_batch bptt ds 0 None =
          (ds\<lparr>nd_rows := take (nat bptt) (nd_rows ds)\<rparr>,
           ds\<lparr>nd_rows := take (nat bptt) (drop 1 (nd_rows ds))\<rparr>)"
  using assms
  by (auto simp: get_batch_def py_slice_def slice_bound_def Let_def min_def)

lemma outs_loop_success:
  "outs_loop fw outs L lg = (Inr v, lg') \<Longrightarrow>
     v = L + (\<Sum>out\<leftarrow>outs. - ln out) \<and> lg' = lg @ replicate (length outs) (Done AsScalar)"
proof (induction outs arbitrary: L lg)
  case Nil
  then show ?case by (simp add: ret_apply)
next
  case (Cons out outs)
  from Cons.prems obtain u l1 where
    a: "invoke (fw_effect fw) AsScalar lg = (Inr u, l1)" and
    b: "outs_loop fw outs (L + - ln out) l1 = (Inr v, lg')"
    by (auto elim!: then_do_InrE)
  from a have l1: "l1 = lg @ [Done AsScalar]" by (auto elim: invoke_InrE)
  from Cons.IH[OF b] show ?case using l1 by (simp add: replicate_append_same)
qed

lemma outs_loop_total:
  assumes "\<And>l c. fw_effect fw l c = Inr ()"
  shows "outs_loop fw outs L lg =
          (Inr (L + (\<Sum>out\<leftarrow>outs. - ln out)), lg @ replicate (length outs) (Done AsScalar))"
  by (induction outs arbitrary: L lg)
     (simp_all add: ret_apply then_do_def invoke_def assms replicate_append_same)

lemma evaluate_cache_long:
  assumes "0 < bptt" and "bptt + 1 < len ds" and "get_batch bptt ds 0 None = (data, target)"
  shows "evaluate_cache fw bptt ds bs c =
     then_do (invoke (fw_begin_state fw) (BeginState bs c)) (\<lambda>hidden.
     then_do (invoke (fw_effect fw) (AsInContext data c)) (\<lambda>_.
     then_do (invoke (fw_effect fw) (AsInContext target c)) (\<lambda>_.
     then_do (invoke (fw_cache_forward fw)
                (CacheForward (data\<lparr>nd_ctx := c\<rparr>) (target\<lparr>nd_ctx := c\<rparr>) None None hidden))
       (\<lambda>(outs, nwh, ch, hidden').
     then_do (outs_loop fw outs 0) (\<lambda>L.
     if nd_cols data = 0 then raise ZeroDivisionError
     else
     then_do (detach fw hidden') (\<lambda>hidden''.
     then_do (printed (CacheBatch bptt (exp (L / real (nd_cols data) / real_of_int bptt)))) (\<lambda>_.
     ret (L / real (nd_cols data) / real_of_int bptt))))))))"
proof -
  obtain rest where r: "py_range0 (len ds - 1) bptt = Inr (0 # bptt # rest)"
    using py_range0_long[OF assms(1,2)] by blast
  show ?thesis
    unfolding evaluate_cache_def r
    using assms(1,3) by (simp add: run_laws cong: if_cong)
qed

lemma evaluate_cache_long_success:
  assumes "0 < bptt" and "bptt + 1 < len ds"
    and run: "evaluate_cache fw bptt ds bs c lg = (Inr v, lg')"
  shows "\<exists>h outs nwh ch h'.
      fw_begin_state fw lg (BeginState bs c) = Inr h
    \<and> fw_cache_forward fw
          (lg @ [Done (BeginState bs c),
                 Done (AsInContext (ds\<lparr>nd_rows := take (nat bptt) (nd_rows ds)\<rparr>) c),
                 Done (AsInContext (ds\<lparr>nd_rows := take (nat bptt) (drop 1 (nd_rows ds))\<rparr>) c)])
          (CacheForward (ds\<lparr>nd_rows := take (nat bptt) (nd_rows ds), nd_ctx := c\<rparr>)
             (ds\<lparr>nd_rows := take (nat bptt) (drop 1 (nd_rows ds)), nd_ctx := c\<rparr>) None None h)
        = Inr (outs, nwh, ch, h')
    \<and> v = (\<Sum>out\<leftarrow>outs. - ln out) / real (nd_cols ds) / real_of_int bptt
    \<and> cache_windows (drop (length lg) lg')
        = [(ds\<lparr>nd_rows := take (nat bptt) (nd_rows ds), nd_ctx := c\<rparr>,
            ds\<lparr>nd_rows := take (nat bptt) (drop 1 (nd_rows ds)), nd_ctx := c\<rparr>)]
    \<and> last lg' = Printed (CacheBatch bptt (exp v))"
proof -
  let ?data = "ds\<lparr>nd_rows := take (nat bptt) (nd_rows ds)\<rparr>"
  let ?target = "ds\<lparr>nd_rows := take (nat bptt) (drop 1 (nd_rows ds))\<rparr>"
  note eq = evaluate_cache_long[OF assms(1,2) get_batch_first[OF assms(1,2)], of fw bs c]
  from run[unfolded eq] obtain h outs nwh ch h' L l5 h'' l6 where
    bs: "fw_begin_state fw lg (BeginState bs c) = Inr h" and
    cf: "fw_cache_forward fw
          (lg @ [Done (BeginState bs c), Done (AsInContext ?data c), Done (AsInContext ?target c)])
          (CacheForward (?data\<lparr>nd_ctx := c\<rparr>) (?target\<lparr>nd_ctx := c\<rparr>) None None h)
        = Inr (outs, nwh, ch, h')" and
    ol: "outs_loop fw outs 0
          (lg @ [Done (BeginState bs c), Done (AsInContext ?data c), Done (AsInContext ?target c),
                 Done (CacheForward (?data\<lparr>nd_ctx := c\<rparr>) (?target\<lparr>nd_ctx := c\<rparr>) None None h)])
        = (Inr L, l5)" and
    dt: "detach fw h' l5 = (Inr h'', l6)" and
    v: "v = L / real (nd_cols ds) / real_of_int bptt" and
    lg': "lg' = l6 @ [Printed (CacheBatch bptt (exp (L / real (nd_cols ds) / real_of_int bptt)))]"
    by (auto simp: success_iffs split: if_splits)
  from outs_loop_success[OF ol] have L: "L = (\<Sum>out\<leftarrow>outs. - ln out)"
    and l5: "l5 = (lg @ [Done (BeginState bs c), Done (AsInContext ?data c), Done (AsInContext ?target c),
                 Done (CacheForward (?data\<lparr>nd_ctx := c\<rparr>) (?target\<lparr>nd_ctx := c\<rparr>) None None h)])
                @ replicate (length outs) (Done AsScalar)" by simp_all
  from detach_success(1)[OF dt] obtain d where l6: "l6 = l5 @ d" and d: "list_all is_detach d"
    by blast
  have delta: "drop (length lg) lg' =
      [Done (BeginState bs c), Done (AsInContext ?data c), Done (AsInContext ?target c),
       Done (CacheForward (?data\<lparr>nd_ctx := c\<rparr>) (?target\<lparr>nd_ctx := c\<rparr>) None None h)]
      @ replicate (length outs) (Done AsScalar) @ d
      @ [Printed (CacheBatch bptt (exp (L / real (nd_cols ds) / real_of_int bptt)))]"
    unfolding lg' l6 l5 by simp
  have w: "cache_windows (drop (length lg) lg') = [(?data\<lparr>nd_ctx := c\<rparr>, ?target\<lparr>nd_ctx := c\<rparr>)]"
    unfolding delta
    by (simp add: cache_windows_simps cache_windows_detach[OF d] cache_windows_scalars)
  show ?thesis
    using bs cf w v L lg' by auto
qed





lemma evaluate_cache_prefix:
  assumes "0 < bptt" and "bptt + 1 < len ds" and "bptt + 1 < len ds'"
    and rows: "take (nat bptt + 1) (nd_rows ds') = take (nat bptt + 1) (nd_rows ds)"
    and "nd_cols ds' = nd_cols ds" and "nd_ctx ds' = nd_ctx ds"
  shows "evaluate_cache fw bptt ds' bs c = evaluate_cache fw bptt ds bs c"
proof -
  have a: "take (nat bptt) (nd_rows ds') = take (nat bptt) (nd_rows ds)"
    using arg_cong[OF rows, of "take (nat bptt)"] by simp
  have b: "take (nat bptt) (drop 1 (nd_rows ds')) = take (nat bptt) (drop 1 (nd_rows ds))"
    using arg_cong[OF rows, of "drop 1"] by (simp add: drop_take)
  have "get_batch bptt ds' 0 None = get_batch bptt ds 0 None"
    unfolding get_batch_first[OF assms(1,2)] get_batch_first[OF assms(1,3)]
    using a b assms(5,6) by (cases ds; cases ds') simp
  then show ?thesis
    using evaluate_cache_long[OF assms(1,2) get_batch_first[OF assms(1,2)], of fw bs c]
      evaluate_cache_long[OF assms(1,3), of _ _ fw bs c] get_batch_first[OF assms(1,2)]
    by simp
qed

subsection \<open>The training iteration\<close>

text \<open>
  What a training iteration that returns normally has done, call by call.
\<close>

lemma collect_grads_success:
  assumes "collect_grads fw parameters data_list lg = (Inr grads, lg')"
  shows "lg' = lg @ map (\<lambda>(p, x). Done (Grad p (nd_ctx x))) (List.product parameters data_list)
       \<and> length grads = length (List.product parameters data_list)"
proof -
  have "map_run (\<lambda>(p, x). invoke (fw_grad fw) (Grad p (nd_ctx x))) pxs l = (Inr ys, l')
        \<Longrightarrow> l' = l @ map (\<lambda>(p, x). Done (Grad p (nd_ctx x))) pxs \<and> length ys = length pxs"
    for pxs :: "(string \<times> tokens) list" and l l' ys
    by (induction pxs arbitrary: l ys) (fastforce simp: success_iffs)+
  then show ?thesis using assms unfolding collect_grads_def by blast
qed

lemma sum_scalars_success:
  assumes "sum_scalars fw Ls lg = (Inr v, lg')"
  shows "v = (\<Sum>l\<leftarrow>Ls. sum_list l) \<and> lg' = lg @ replicate (length Ls) (Done AsScalar)"
proof -
  have "map_run (\<lambda>l. then_do (invoke (fw_effect fw) AsScalar) (\<lambda>_. ret (sum_list l))) xs l0 = (Inr ys, l')
        \<Longrightarrow> ys = map sum_list xs \<and> l' = l0 @ replicate (length xs) (Done AsScalar)"
    for xs :: "real list list" and l0 l' ys
    by (induction xs arbitrary: l0 ys) (fastforce simp: success_iffs replicate_append_same)+
  then show ?thesis using assms unfolding sum_scalars_def by (auto simp: success_iffs)
qed

lemma device_loop_success:
  assumes "device_loop fw g j xs (L, Ls, hs) lg = (Inr (L', Ls', hs'), lg')"
  shows "\<exists>d. lg' = lg @ d
    \<and> steps d = concat (replicate (length xs) [ForwardPass, LossComputation])
    \<and> forward_calls d = map (\<lambda>(X, y, h). (X, h)) xs
    \<and> length (loss_values d) = length xs
    \<and> Ls' = Ls @ map2 (weighted g) (loss_values d) (map fst xs)
    \<and> nd_sum L (map2 (weighted g) (loss_values d) (map fst xs)) = Inr L'
    \<and> length hs' = length hs
    \<and> (xs \<noteq> [] \<longrightarrow> L' \<noteq> None)"
  using assms
proof (induction xs arbitrary: j L Ls hs lg)
  case Nil
  then show ?case by (simp add: ret_Inr_iff steps_simps forward_calls_simps loss_values_simps)
next
  case (Cons x xs)
  obtain X y h where x: "x = (X, y, h)" by (cases x)
  obtain c0 cs where c: "g_context g = c0 # cs"
    using Cons.prems[unfolded x] by (auto simp: success_iffs branch_iffs)
  from Cons.prems[unfolded x] obtain outp h1 batch_L L1 where
    f: "fw_forward fw lg (Forward X h) = Inr (outp, h1)" and
    lo: "fw_loss fw (lg @ [Done (Forward X h)]) (Loss outp y) = Inr batch_L" and
    a: "nd_add L (weighted g batch_L X) = Inr L1" and
    r: "device_loop fw g (Suc j) xs
          (Some L1, Ls @ [weighted g batch_L X], hs[j := h1])
          (lg @ [Done (Forward X h), Done (Loss outp y), Done (LossAsInContext batch_L c0)])
        = (Inr (L', Ls', hs'), lg')"
    by (auto simp: success_iffs branch_iffs c)
  from Cons.IH[OF r] obtain d where
    d: "lg' = (lg @ [Done (Forward X h), Done (Loss outp y), Done (LossAsInContext batch_L c0)]) @ d"
    and st: "steps d = concat (replicate (length xs) [ForwardPass, LossComputation])"
    and fc: "forward_calls d = map (\<lambda>(X, y, h). (X, h)) xs"
    and ll: "length (loss_values d) = length xs"
    and ls: "Ls' = (Ls @ [weighted g batch_L X])
                @ map2 (weighted g) (loss_values d) (map fst xs)"
    and ns: "nd_sum (Some L1) (map2 (weighted g) (loss_values d) (map fst xs)) = Inr L'"
    and lh: "length hs' = length (hs[j := h1])"
    and nn: "xs \<noteq> [] \<longrightarrow> L' \<noteq> None"
    by blast
  have L': "L' \<noteq> None"
  proof (cases xs)
    case Nil
    then show ?thesis using ns ll by auto
  next
    case (Cons a list)
    then show ?thesis using nn by simp
  qed
  let ?d = "[Done (Forward X h), Done (Loss outp y), Done (LossAsInContext batch_L c0)] @ d"
  have "lg' = lg @ ?d" using d by simp
  moreover have "steps ?d = concat (replicate (length (x # xs)) [ForwardPass, LossComputation])"
    using st by (simp add: steps_simps)
  moreover have "forward_calls ?d = map (\<lambda>(X, y, h). (X, h)) (x # xs)"
    using fc by (simp add: forward_calls_simps x)
  moreover have lv: "loss_values ?d = batch_L # loss_values d"
    by (simp add: loss_values_simps)
  moreover have "Ls' = Ls @ map2 (weighted g) (loss_values ?d) (map fst (x # xs))"
    using ls by (simp add: loss_values_simps x)
  moreover have "nd_sum L (map2 (weighted g) (loss_values ?d) (map fst (x # xs))) = Inr L'"
    using ns a by (simp add: loss_values_simps x)
  moreover have "length hs' = length hs" using lh by simp
  ultimately show ?case using ll L' by (intro exI[of _ ?d]) (simp add: loss_values_simps)
qed



lemma train_batch_success:
  assumes run: "train_batch fw g ps epoch n i (data, target) (total_L, hiddens) lg
                  = (Inr (total_L', hiddens_out), lg')"
  obtains data_list target_list hiddens' d_det L Ls d_dev grads where
    "fw_split_and_load fw lg (SplitAndLoad data (g_context g) 1 True) = Inr data_list"
    "fw_split_and_load fw (lg @ [Done (SplitAndLoad data (g_context g) 1 True)])
       (SplitAndLoad target (g_context g) 1 True) = Inr target_list"
    "detach_list fw hiddens
       (lg @ [Done (SplitAndLoad data (g_context g) 1 True),
              Done (SplitAndLoad target (g_context g) 1 True)])
     = (Inr hiddens',
        lg @ [Done (SplitAndLoad data (g_context g) 1 True),
              Done (SplitAndLoad target (g_context g) 1 True)] @ d_det)"
    "device_loop fw g 0 (zip data_list (zip target_list hiddens')) (None, [], hiddens')
       (lg @ [Done (SplitAndLoad data (g_context g) 1 True),
              Done (SplitAndLoad target (g_context g) 1 True)] @ d_det @ [Enter])
     = (Inr (Some L, Ls, hiddens_out),
        lg @ [Done (SplitAndLoad data (g_context g) 1 True),
              Done (SplitAndLoad target (g_context g) 1 True)] @ d_det @ [Enter] @ d_dev)"
    "collect_grads fw ps data_list
       (lg @ [Done (SplitAndLoad data (g_context g) 1 True),
              Done (SplitAndLoad target (g_context g) 1 True)] @ d_det @ [Enter] @ d_dev
           @ [Exit, Done (Backward L)])
     = (Inr grads,
        lg @ [Done (SplitAndLoad data (g_context g) 1 True),
              Done (SplitAndLoad target (g_context g) 1 True)] @ d_det @ [Enter] @ d_dev
           @ [Exit, Done (Backward L)]
           @ map (\<lambda>(p, x). Done (Grad p (nd_ctx x))) (List.product ps data_list))"
    "fw_effect fw
       (lg @ [Done (SplitAndLoad data (g_context g) 1 True),
              Done (SplitAndLoad target (g_context g) 1 True)] @ d_det @ [Enter] @ d_dev
           @ [Exit, Done (Backward L)]
           @ map (\<lambda>(p, x). Done (Grad p (nd_ctx x))) (List.product ps data_list))
       (ClipGlobalNorm grads (g_grad_clip g)) = Inr ()"
    "g_log_interval g \<noteq> 0"
    "lg' = lg @ [Done (SplitAndLoad data (g_context g) 1 True),
              Done (SplitAndLoad target (g_context g) 1 True)] @ d_det @ [Enter] @ d_dev
           @ [Exit, Done (Backward L)]
           @ map (\<lambda>(p, x). Done (Grad p (nd_ctx x))) (List.product ps data_list)
           @ [Done (ClipGlobalNorm grads (g_grad_clip g)), Done (TrainerStep 1)]
           @ replicate (length Ls) (Done AsScalar)
           @ (if i mod g_log_interval g = 0 \<and> 0 < i
              then [Printed (TrainLog epoch i n
                      ((total_L + (\<Sum>l\<leftarrow>Ls. sum_list l)) / real (g_log_interval g))
                      (exp ((total_L + (\<Sum>l\<leftarrow>Ls. sum_list l)) / real (g_log_interval g))))]
              else [])"
    "total_L' = (if i mod g_log_interval g = 0 \<and> 0 < i then 0
                 else total_L + (\<Sum>l\<leftarrow>Ls. sum_list l))"
proof -
  let ?s1 = "Done (SplitAndLoad data (g_context g) 1 True) :: 'a entry"
  let ?s2 = "Done (SplitAndLoad target (g_context g) 1 True) :: 'a entry"
  from run obtain data_list target_list hiddens' l3 L Ls l4 grads l5 v l6 where
    s1: "fw_split_and_load fw lg (SplitAndLoad data (g_context g) 1 True) = Inr data_list" and
    s2: "fw_split_and_load fw (lg @ [?s1]) (SplitAndLoad target (g_context g) 1 True)
          = Inr target_list" and
    dt: "detach_list fw hiddens (lg @ [?s1, ?s2]) = (Inr hiddens', l3)" and
    dv: "device_loop fw g 0 (zip data_list (zip target_list hiddens')) (None, [], hiddens')
           (l3 @ [Enter]) = (Inr (Some L, Ls, hiddens_out), l4)" and
    bw: "fw_effect fw (l4 @ [Exit]) (Backward L) = Inr ()" and
    cg: "collect_grads fw ps data_list (l4 @ [Exit, Done (Backward L)]) = (Inr grads, l5)" and
    cl: "fw_effect fw l5 (ClipGlobalNorm grads (g_grad_clip g)) = Inr ()" and
    ss: "sum_scalars fw Ls
           (l5 @ [Done (ClipGlobalNorm grads (g_grad_clip g)), Done (TrainerStep 1)]) = (Inr v, l6)" and
    li: "g_log_interval g \<noteq> 0" and
    fin: "lg' = l6 @ (if i mod g_log_interval g = 0 \<and> 0 < i
              then [Printed (TrainLog epoch i n
                      ((total_L + v) / real (g_log_interval g))
                      (exp ((total_L + v) / real (g_log_interval g))))]
              else [])" and
    tot: "total_L' = (if i mod g_log_interval g = 0 \<and> 0 < i then 0 else total_L + v)"
    unfolding train_batch_def
    by (auto simp: success_iffs branch_iffs split: if_splits)
  from detach_success(2)[OF dt] obtain d_det where l3: "l3 = (lg @ [?s1, ?s2]) @ d_det"
    by blast
  from device_loop_success[OF dv] obtain d_dev where l4: "l4 = (l3 @ [Enter]) @ d_dev"
    by blast
  from collect_grads_success[OF cg] have
    l5: "l5 = (l4 @ [Exit, Done (Backward L)])
              @ map (\<lambda>(p, x). Done (Grad p (nd_ctx x))) (List.product ps data_list)"
    by simp
  from sum_scalars_success[OF ss] have v: "v = (\<Sum>l\<leftarrow>Ls. sum_list l)"
    and l6: "l6 = (l5 @ [Done (ClipGlobalNorm grads (g_grad_clip g)), Done (TrainerStep 1)])
                  @ replicate (length Ls) (Done AsScalar)"
    by simp_all
  show thesis
    by (rule that[of data_list target_list hiddens' d_det L Ls d_dev grads])
       (use s1 s2 dt dv cg cl li fin tot in \<open>simp_all add: l3 l4 l5 l6 v\<close>)
qed



lemma train_batches_append:
  "train_batches fw g ps e n i (xs @ ys) s
     = then_do (train_batches fw g ps e n i xs s) (train_batches fw g ps e n (i + length xs) ys)"
proof (induction xs arbitrary: i s)
  case Nil
  then show ?case by (simp add: then_do_ret)
next
  case (Cons x xs)
  have "train_batches fw g ps e n (Suc i) (xs @ ys)
          = (\<lambda>s. then_do (train_batches fw g ps e n (Suc i) xs s)
                    (train_batches fw g ps e n (Suc i + length xs) ys))"
    using Cons.IH[of "Suc i"] by (intro ext) simp
  then show ?case by (simp add: then_do_assoc)
qed



subsection \<open>Evaluation\<close>

lemma evaluate_loop_forwards:
  assumes c: "detach_contract fw depth"
    and run: "evaluate_loop fw cx batches (t, n, h) lg = (Inr r, lg')"
  shows "\<exists>d. lg' = lg @ d
    \<and> (forward_calls d = []
        \<or> (\<exists>X rest. forward_calls d = (X, h) # rest \<and> list_all (\<lambda>(X, h). detached depth h) rest))
    \<and> checkpoints d = [] \<and> learning_rates d = []"
  using run
proof (induction batches arbitrary: t n h lg)
  case Nil
  then show ?case by (simp add: ret_Inr_iff forward_calls_simps checkpoints_def learning_rates_def)
next
  case (Cons b batches)
  obtain data target where b: "b = (data, target)" by (cases b)
  from Cons.prems[unfolded b] obtain outp h1 l4 h2 L where
    dt: "detach fw h1
           (lg @ [Done (AsInContext data cx), Done (AsInContext target cx),
                  Done (Forward (data\<lparr>nd_ctx := cx\<rparr>) h)]) = (Inr h2, l4)" and
    r: "evaluate_loop fw cx batches (t + sum_list L, n + length L, h2)
          (l4 @ [Done (Loss outp (target\<lparr>nd_ctx := cx\<rparr>)), Done AsScalar]) = (Inr r, lg')"
    by (auto simp: success_iffs)
  from detach_success(1)[OF dt] obtain dd where
    l4: "l4 = (lg @ [Done (AsInContext data cx), Done (AsInContext target cx),
                  Done (Forward (data\<lparr>nd_ctx := cx\<rparr>) h)]) @ dd"
    and dd: "list_all is_detach dd" by blast
  have h2: "detached depth h2" using detach_detached[OF c dt] .
  from Cons.IH[OF r] obtain d where
    d: "lg' = (l4 @ [Done (Loss outp (target\<lparr>nd_ctx := cx\<rparr>)), Done AsScalar]) @ d"
    and fc: "forward_calls d = []
        \<or> (\<exists>X rest. forward_calls d = (X, h2) # rest \<and> list_all (\<lambda>(X, h). detached depth h) rest)"
    and cp: "checkpoints d = []" and lr: "learning_rates d = []"
    by blast
  let ?d = "[Done (AsInContext data cx), Done (AsInContext target cx),
             Done (Forward (data\<lparr>nd_ctx := cx\<rparr>) h)] @ dd
            @ [Done (Loss outp (target\<lparr>nd_ctx := cx\<rparr>)), Done AsScalar] @ d"
  have silent: "checkpoints dd = []" "learning_rates dd = []"
  proof -
    have "\<forall>x \<in> set dd. checkpoint x = [] \<and> learning_rate x = []"
    proof
      fix x assume "x \<in> set dd"
      then have "is_detach x" using dd by (simp add: list_all_iff)
      then show "checkpoint x = [] \<and> learning_rate x = []"
        by (cases x rule: is_detach.cases) simp_all
    qed
    then show "checkpoints dd = []" "learning_rates dd = []"
      by (simp_all add: checkpoints_def learning_rates_def)
  qed
  have 1: "lg' = lg @ ?d" using d l4 by simp
  have 2: "forward_calls ?d = (data\<lparr>nd_ctx := cx\<rparr>, h) # forward_calls d"
    by (simp add: forward_calls_simps detach_entries_silent[OF dd])
  have 3: "list_all (\<lambda>(X, h). detached depth h) (forward_calls d)"
    using fc h2 by auto
  have 4: "checkpoints ?d = []" "learning_rates ?d = []"
    using cp lr silent by (simp_all add: checkpoints_def learning_rates_def)
  show ?case
    by (rule exI[of _ ?d]) (use 1 2 3 4 in auto)
qed


lemma evaluate_loop_totals:
  "evaluate_loop fw c batches (t, n, h) lg = (Inr (t', n', h'), lg') \<Longrightarrow>
     \<exists>Ls. length Ls = length batches
       \<and> t' = t + sum_list (concat Ls) \<and> n' = n + length (concat Ls)
       \<and> (\<forall>L \<in> set Ls. \<exists>l out y. fw_loss fw l (Loss out y) = Inr L)"
proof (induction batches arbitrary: t n h lg)
  case Nil
  then show ?case by (simp add: ret_Inr_iff)
next
  case (Cons b batches)
  obtain data target where b: "b = (data, target)" by (cases b)
  from Cons.prems[unfolded b] obtain outp l4 h2 L where
    lo: "fw_loss fw l4 (Loss outp (target\<lparr>nd_ctx := c\<rparr>)) = Inr L" and
    r: "evaluate_loop fw c batches (t + sum_list L, n + length L, h2)
          (l4 @ [Done (Loss outp (target\<lparr>nd_ctx := c\<rparr>)), Done AsScalar])
        = (Inr (t', n', h'), lg')"
    by (auto simp: success_iffs)
  from Cons.IH[OF r] obtain Ls where
    Ls: "length Ls = length batches" "t' = t + sum_list L + sum_list (concat Ls)"
    "n' = n + length L + length (concat Ls)"
    "\<forall>L \<in> set Ls. \<exists>l out y. fw_loss fw l (Loss out y) = Inr L"
    by blast
  show ?case
    by (rule exI[of _ "L # Ls"]) (use Ls lo in auto)
qed

subsection \<open>Concrete runs\<close>

text \<open>Runs of the notebook's functions on the small frameworks.\<close>

lemma demo_simps:
  "fw_collect_params fw_demo l c = Inr [''weight'']"
  "fw_begin_state fw_demo l c = Inr (Tup [Arr 0, Arr 0])"
  "fw_split_and_load fw_demo l (SplitAndLoad d cs axis ev) = Inr (map (\<lambda>x. d\<lparr>nd_ctx := x\<rparr>) cs)"
  "fw_nd_detach fw_demo l c = Inr 0"
  "fw_forward fw_demo l (Forward X h)
     = Inr (foldr max (leaves h) 0 + length (nd_rows X),
            Tup [Arr (foldr max (leaves h) 0 + length (nd_rows X)),
                 Arr (foldr max (leaves h) 0 + length (nd_rows X))])"
  "fw_loss fw_demo l (Loss out y) = Inr (replicate (nd_size y) 1)"
  "fw_grad fw_demo l c = Inr 0"
  "fw_effect fw_demo l c = Inr ()"
  by (simp_all add: fw_demo_def)

lemma probe_effect: "fw_effect fw_probe l c = Inr ()"
  by (simp add: fw_probe_def fw_demo_def)

lemma probe_simps:
  "fw_begin_state fw_probe l c = Inr (Tup [Arr 0, Arr 0])"
  "fw_nd_detach fw_probe l c = Inr 0"
  "fw_cache_forward fw_probe l (CacheForward d t nwh ch h)
     = Inr (map (\<lambda>r. if r = [7] then exp (- 1) else 1) (nd_rows t), None, None, h)"
  by (simp_all add: fw_probe_def fw_demo_def)



lemma notebook_fields:
  "g_context notebook_globals = [Gpu 0]" "g_batch_size notebook_globals = 20"
  by (simp_all add: notebook_globals_def)

lemma demo_train_batch:
  "train_batch fw_demo notebook_globals [''weight''] epoch n i demo_batch
     (t, [Tup [Arr a, Arr b]]) lg
   = (Inr (if i mod 200 = 0 \<and> 0 < i then 0 else t + 1, [Tup [Arr 2, Arr 2]]),
      lg @ [Done (SplitAndLoad (fst demo_batch) [Gpu 0] 1 True),
            Done (SplitAndLoad (snd demo_batch) [Gpu 0] 1 True),
            Done (NdDetach a), Done (NdDetach b),
            Enter,
            Done (Forward ((fst demo_batch)\<lparr>nd_ctx := Gpu 0\<rparr>) (Tup [Arr 0, Arr 0])),
            Done (Loss 2 ((snd demo_batch)\<lparr>nd_ctx := Gpu 0\<rparr>)),
            Done (LossAsInContext [1, 1] (Gpu 0)),
            Exit,
            Done (Backward [1 / 2, 1 / 2]),
            Done (Grad ''weight'' (Gpu 0)),
            Done (ClipGlobalNorm [0] 0.25),
            Done (TrainerStep 1),
            Done AsScalar]
         @ (if i mod 200 = 0 \<and> 0 < i
            then [Printed (TrainLog epoch i n ((t + 1) / 200) (exp ((t + 1) / 200)))]
            else []))"
  by (simp add: train_batch_def run_defs collect_grads_def sum_scalars_def weighted_def
      nd_div_def nd_add_def nd_size_def demo_simps notebook_globals_def demo_batch_def
      numeral_2_eq_2)



lemma demo_deep_batch:
  "train_batch fw_demo notebook_globals [''weight''] 0 1 0 (fst demo_batch, snd demo_batch)
     (0, [Tup [Arr 5, Arr 5]]) []
   = (Inr (1, [Tup [Arr 2, Arr 2]]),
      [Done (SplitAndLoad (fst demo_batch) [Gpu 0] 1 True),
       Done (SplitAndLoad (snd demo_batch) [Gpu 0] 1 True),
       Done (NdDetach 5), Done (NdDetach 5),
       Enter,
       Done (Forward ((fst demo_batch)\<lparr>nd_ctx := Gpu 0\<rparr>) (Tup [Arr 0, Arr 0])),
       Done (Loss 2 ((snd demo_batch)\<lparr>nd_ctx := Gpu 0\<rparr>)),
       Done (LossAsInContext [1, 1] (Gpu 0)),
       Exit,
       Done (Backward [1 / 2, 1 / 2]),
       Done (Grad ''weight'' (Gpu 0)),
       Done (ClipGlobalNorm [0] 0.25),
       Done (TrainerStep 1),
       Done AsScalar])"
  using demo_train_batch[of 0 1 0 0 5 5 "[]"] by simp

lemma demo_evaluate_loop:
  "evaluate_loop fw_demo (Gpu 0) [demo_batch, demo_batch] (0, 0, Tup [Arr 5, Arr 5]) []
   = (Inr (4, 4, Tup [Arr 0, Arr 0]),
      [Done (AsInContext (fst demo_batch) (Gpu 0)),
       Done (AsInContext (snd demo_batch) (Gpu 0)),
       Done (Forward ((fst demo_batch)\<lparr>nd_ctx := Gpu 0\<rparr>) (Tup [Arr 5, Arr 5])),
       Done (NdDetach 7), Done (NdDetach 7),
       Done (Loss 7 ((snd demo_batch)\<lparr>nd_ctx := Gpu 0\<rparr>)),
       Done AsScalar,
       Done (AsInContext (fst demo_batch) (Gpu 0)),
       Done (AsInContext (snd demo_batch) (Gpu 0)),
       Done (Forward ((fst demo_batch)\<lparr>nd_ctx := Gpu 0\<rparr>) (Tup [Arr 0, Arr 0])),
       Done (NdDetach 2), Done (NdDetach 2),
       Done (Loss 2 ((snd demo_batch)\<lparr>nd_ctx := Gpu 0\<rparr>)),
       Done AsScalar])"
  by (simp add: demo_batch_def run_defs demo_simps nd_size_def)

lemma demo_evaluate:
  "evaluate fw_demo [demo_batch] 20 (Gpu 0) lg
   = (Inr 1,
      lg @ [Done (BeginState 20 (Gpu 0)),
       Done (AsInContext (fst demo_batch) (Gpu 0)),
       Done (AsInContext (snd demo_batch) (Gpu 0)),
       Done (Forward ((fst demo_batch)\<lparr>nd_ctx := Gpu 0\<rparr>) (Tup [Arr 0, Arr 0])),
       Done (NdDetach 2), Done (NdDetach 2),
       Done (Loss 2 ((snd demo_batch)\<lparr>nd_ctx := Gpu 0\<rparr>)),
       Done AsScalar])"
  by (simp add: evaluate_def demo_batch_def run_defs demo_simps nd_size_def)


lemma demo_contracts: "detach_contract fw_demo id" "split_contract fw_demo"
  by (simp_all add: detach_contract_def split_contract_def demo_simps list_all_iff)

lemma str_nat_0: "str_nat 0 = ''0''"
  by code_simp

lemma notebook_params_file:
  "params_file notebook_globals 0 = ''standard_lstm_lm_200_wikitext-2-0.params''"
  by (simp add: params_file_def notebook_globals_def str_nat_0 del: str_nat.simps)



lemma demo_quiet_batches:
  "i + k \<le> 200 \<Longrightarrow>
   \<exists>a' b' d. train_batches fw_demo notebook_globals [''weight''] e n i (replicate k demo_batch)
               (t, [Tup [Arr a, Arr b]]) lg
             = (Inr (t + real k, [Tup [Arr a', Arr b']]), lg @ d)"
proof (induction k arbitrary: i t a b lg)
  case 0
  then show ?case by (simp add: ret_def)
next
  case (Suc k)
  then have i: "i < 200" and ik: "Suc i + k \<le> 200" by simp_all
  then have q: "\<not> (i mod 200 = 0 \<and> 0 < i)" by auto
  note step = demo_train_batch[of e n i t a b lg, unfolded if_not_P[OF q]]
  from Suc.IH[OF ik, of "t + 1" 2 2 "lg @ [Done (SplitAndLoad (fst demo_batch) [Gpu 0] 1 True),
            Done (SplitAndLoad (snd demo_batch) [Gpu 0] 1 True),
            Done (NdDetach a), Done (NdDetach b),
            Enter,
            Done (Forward ((fst demo_batch)\<lparr>nd_ctx := Gpu 0\<rparr>) (Tup [Arr 0, Arr 0])),
            Done (Loss 2 ((snd demo_batch)\<lparr>nd_ctx := Gpu 0\<rparr>)),
            Done (LossAsInContext [1, 1] (Gpu 0)),
            Exit,
            Done (Backward [1 / 2, 1 / 2]),
            Done (Grad ''weight'' (Gpu 0)),
            Done (ClipGlobalNorm [0] 0.25),
            Done (TrainerStep 1),
            Done AsScalar] @ []"]
  obtain a' b' d where
    r: "train_batches fw_demo notebook_globals [''weight''] e n (Suc i) (replicate k demo_batch)
          (t + 1, [Tup [Arr 2, Arr 2]])
          (lg @ [Done (SplitAndLoad (fst demo_batch) [Gpu 0] 1 True),
            Done (SplitAndLoad (snd demo_batch) [Gpu 0] 1 True),
            Done (NdDetach a), Done (NdDetach b),
            Enter,
            Done (Forward ((fst demo_batch)\<lparr>nd_ctx := Gpu 0\<rparr>) (Tup [Arr 0, Arr 0])),
            Done (Loss 2 ((snd demo_batch)\<lparr>nd_ctx := Gpu 0\<rparr>)),
            Done (LossAsInContext [1, 1] (Gpu 0)),
            Exit,
            Done (Backward [1 / 2, 1 / 2]),
            Done (Grad ''weight'' (Gpu 0)),
            Done (ClipGlobalNorm [0] 0.25),
            Done (TrainerStep 1),
            Done AsScalar] @ [])
        = (Inr (t + 1 + real k, [Tup [Arr a', Arr b']]),
           (lg @ [Done (SplitAndLoad (fst demo_batch) [Gpu 0] 1 True),
            Done (SplitAndLoad (snd demo_batch) [Gpu 0] 1 True),
            Done (NdDetach a), Done (NdDetach b),
            Enter,
            Done (Forward ((fst demo_batch)\<lparr>nd_ctx := Gpu 0\<rparr>) (Tup [Arr 0, Arr 0])),
            Done (Loss 2 ((snd demo_batch)\<lparr>nd_ctx := Gpu 0\<rparr>)),
            Done (LossAsInContext [1, 1] (Gpu 0)),
            Exit,
            Done (Backward [1 / 2, 1 / 2]),
            Done (Grad ''weight'' (Gpu 0)),
            Done (ClipGlobalNorm [0] 0.25),
            Done (TrainerStep 1),
            Done AsScalar] @ []) @ d)"
    by blast
  have "train_batches fw_demo notebook_globals [''weight''] e n i (replicate (Suc k) demo_batch)
               (t, [Tup [Arr a, Arr b]]) lg
        = (Inr (t + real (Suc k), [Tup [Arr a', Arr b']]),
           lg @ ([Done (SplitAndLoad (fst demo_batch) [Gpu 0] 1 True),
            Done (SplitAndLoad (snd demo_batch) [Gpu 0] 1 True),
            Done (NdDetach a), Done (NdDetach b),
            Enter,
            Done (Forward ((fst demo_batch)\<lparr>nd_ctx := Gpu 0\<rparr>) (Tup [Arr 0, Arr 0])),
            Done (Loss 2 ((snd demo_batch)\<lparr>nd_ctx := Gpu 0\<rparr>)),
            Done (LossAsInContext [1, 1] (Gpu 0)),
            Exit,
            Done (Backward [1 / 2, 1 / 2]),
            Done (Grad ''weight'' (Gpu 0)),
            Done (ClipGlobalNorm [0] 0.25),
            Done (TrainerStep 1),
            Done AsScalar] @ d))"
  proof -
    have "train_batches fw_demo notebook_globals [''weight''] e n i (replicate (Suc k) demo_batch)
               (t, [Tup [Arr a, Arr b]]) lg
        = train_batches fw_demo notebook_globals [''weight''] e n (Suc i) (replicate k demo_batch)
          (t + 1, [Tup [Arr 2, Arr 2]])
          (lg @ [Done (SplitAndLoad (fst demo_batch) [Gpu 0] 1 True),
            Done (SplitAndLoad (snd demo_batch) [Gpu 0] 1 True),
            Done (NdDetach a), Done (NdDetach b),
            Enter,
            Done (Forward ((fst demo_batch)\<lparr>nd_ctx := Gpu 0\<rparr>) (Tup [Arr 0, Arr 0])),
            Done (Loss 2 ((snd demo_batch)\<lparr>nd_ctx := Gpu 0\<rparr>)),
            Done (LossAsInContext [1, 1] (Gpu 0)),
            Exit,
            Done (Backward [1 / 2, 1 / 2]),
            Done (Grad ''weight'' (Gpu 0)),
            Done (ClipGlobalNorm [0] 0.25),
            Done (TrainerStep 1),
            Done AsScalar] @ [])"
      unfolding replicate_Suc train_batches.simps by (rule then_do_Inr) (rule step)
    then show ?thesis unfolding r by (simp add: add.assoc add.commute)
  qed
  then show ?case by blast
qed

lemma demo_first_report:
  "\<exists>d. train_batches fw_demo notebook_globals [''weight''] e 201 0 (replicate 201 demo_batch)
         (0, [Tup [Arr 0, Arr 0]]) lg
       = (Inr (0, [Tup [Arr 2, Arr 2]]),
          lg @ d @ [Printed (TrainLog e 200 201 (201 / 200) (exp (201 / 200)))])"
proof -
  have rep: "replicate 201 demo_batch = replicate 200 demo_batch @ [demo_batch]"
  proof -
    have "(201::nat) = Suc 200" by simp
    then show ?thesis by (simp only: replicate_Suc replicate_append_same)
  qed
  from demo_quiet_batches[of 0 200 e 201 0 0 0 lg] obtain a' b' d where
    q: "train_batches fw_demo notebook_globals [''weight''] e 201 0 (replicate 200 demo_batch)
          (0, [Tup [Arr 0, Arr 0]]) lg
        = (Inr (0 + real 200, [Tup [Arr a', Arr b']]), lg @ d)"
    by auto
  have c: "(200::nat) mod 200 = 0 \<and> (0::nat) < 200" by simp
  note last = demo_train_batch[of e 201 200 "0 + real 200" a' b' "lg @ d", unfolded if_P[OF c]]
  have one: "train_batches fw_demo notebook_globals [''weight''] e 201 200 [demo_batch]
          (0 + real 200, [Tup [Arr a', Arr b']]) (lg @ d)
        = ret (0, [Tup [Arr 2, Arr 2]])
           ((lg @ d) @ [Done (SplitAndLoad (fst demo_batch) [Gpu 0] 1 True),
            Done (SplitAndLoad (snd demo_batch) [Gpu 0] 1 True),
            Done (NdDetach a'), Done (NdDetach b'),
            Enter,
            Done (Forward ((fst demo_batch)\<lparr>nd_ctx := Gpu 0\<rparr>) (Tup [Arr 0, Arr 0])),
            Done (Loss 2 ((snd demo_batch)\<lparr>nd_ctx := Gpu 0\<rparr>)),
            Done (LossAsInContext [1, 1] (Gpu 0)),
            Exit,
            Done (Backward [1 / 2, 1 / 2]),
            Done (Grad ''weight'' (Gpu 0)),
            Done (ClipGlobalNorm [0] 0.25),
            Done (TrainerStep 1),
            Done AsScalar]
           @ [Printed (TrainLog e 200 201 ((0 + real 200 + 1) / 200)
                (exp ((0 + real 200 + 1) / 200)))])"
    unfolding train_batches.simps by (rule then_do_Inr) (rule last)
  have "train_batches fw_demo notebook_globals [''weight''] e 201 0 (replicate 201 demo_batch)
         (0, [Tup [Arr 0, Arr 0]]) lg
       = train_batches fw_demo notebook_globals [''weight''] e 201 200 [demo_batch]
          (0 + real 200, [Tup [Arr a', Arr b']]) (lg @ d)"
  proof -
    have "then_do (train_batches fw_demo notebook_globals [''weight''] e 201 0
                     (replicate 200 demo_batch) (0, [Tup [Arr 0, Arr 0]]))
            (train_batches fw_demo notebook_globals [''weight''] e 201
               (0 + length (replicate 200 demo_batch)) [demo_batch]) lg
          = train_batches fw_demo notebook_globals [''weight''] e 201
               (0 + length (replicate 200 demo_batch)) [demo_batch]
               (0 + real 200, [Tup [Arr a', Arr b']]) (lg @ d)"
      by (rule then_do_Inr) (rule q)
    then show ?thesis unfolding rep train_batches_append by simp
  qed
  then show ?thesis unfolding one ret_def
    by (intro exI[of _ "d @ [Done (SplitAndLoad (fst demo_batch) [Gpu 0] 1 True),
            Done (SplitAndLoad (snd demo_batch) [Gpu 0] 1 True),
            Done (NdDetach a'), Done (NdDetach b'),
            Enter,
            Done (Forward ((fst demo_batch)\<lparr>nd_ctx := Gpu 0\<rparr>) (Tup [Arr 0, Arr 0])),
            Done (Loss 2 ((snd demo_batch)\<lparr>nd_ctx := Gpu 0\<rparr>)),
            Done (LossAsInContext [1, 1] (Gpu 0)),
            Exit,
            Done (Backward [1 / 2, 1 / 2]),
            Done (Grad ''weight'' (Gpu 0)),
            Done (ClipGlobalNorm [0] 0.25),
            Done (TrainerStep 1),
            Done AsScalar]"]) simp
qed

section \<open>Properties\<close>



text \<open>
  C2. Every perplexity the notebook reports is meant to be the exponential of an average
  cross-entropy loss, and the training log the exponential of the average per-token loss
  over the last \<^verbatim>\<open>log_interval\<close> batches. The code misses this in the first report of
  every epoch. The run below is \<^verbatim>\<open>train\<close> for one epoch over 201 batches with
  \<^verbatim>\<open>log_interval = 200\<close>, on a framework in which every token of every batch has loss
  1, so that every average is 1. At batch 200 \<^verbatim>\<open>total_L\<close> holds the averages of the 201
  batches 0 to 200 and is divided by 200: the report shows the loss \<open>201 / 200\<close> and the
  perplexity \<open>exp (201 / 200)\<close>. The validation and test reports of the same run show the
  loss 1 and \<open>exp 1\<close>.
\<close>

theorem first_training_report_counts_201_batches:
  "(\<exists>d. train fw_demo notebook_globals (replicate 201 demo_batch) [demo_batch] [demo_batch] 1 20 []
        = (Inr (),
           [Done CollectParams, Done (BeginState 20 (Gpu 0))] @ d
           @ [Printed (TrainLog 0 200 201 (201 / 200) (exp (201 / 200))),
              Done WaitAll,
              Printed (EpochThroughput 0),
              Done (BeginState 20 (Gpu 0)),
              Done (AsInContext (fst demo_batch) (Gpu 0)),
              Done (AsInContext (snd demo_batch) (Gpu 0)),
              Done (Forward ((fst demo_batch)\<lparr>nd_ctx := Gpu 0\<rparr>) (Tup [Arr 0, Arr 0])),
              Done (NdDetach 2), Done (NdDetach 2),
              Done (Loss 2 ((snd demo_batch)\<lparr>nd_ctx := Gpu 0\<rparr>)),
              Done AsScalar,
              Printed (ValidReport 0 1 (exp 1)),
              Done (BeginState 20 (Gpu 0)),
              Done (AsInContext (fst demo_batch) (Gpu 0)),
              Done (AsInContext (snd demo_batch) (Gpu 0)),
              Done (Forward ((fst demo_batch)\<lparr>nd_ctx := Gpu 0\<rparr>) (Tup [Arr 0, Arr 0])),
              Done (NdDetach 2), Done (NdDetach 2),
              Done (Loss 2 ((snd demo_batch)\<lparr>nd_ctx := Gpu 0\<rparr>)),
              Done AsScalar,
              Done (SaveParameters ''standard_lstm_lm_200_wikitext-2-0.params''),
              Printed (TestReport 1 (exp 1)),
              Printed TotalThroughput]))
   \<and> (\<forall>lg out. fw_loss fw_demo lg (Loss out ((snd demo_batch)\<lparr>nd_ctx := Gpu 0\<rparr>)) = Inr [1, 1])
   \<and> (201 / 200 :: real) \<noteq> 1"
proof -
  from demo_first_report[of 0 "[Done CollectParams, Done (BeginState 20 (Gpu 0))]"]
  obtain d where
    tb: "train_batches fw_demo notebook_globals [''weight''] 0 201 0 (replicate 201 demo_batch)
           (0, [Tup [Arr 0, Arr 0]]) [Done CollectParams, Done (BeginState 20 (Gpu 0))]
         = (Inr (0, [Tup [Arr 2, Arr 2]]),
            [Done CollectParams, Done (BeginState 20 (Gpu 0))] @ d
            @ [Printed (TrainLog 0 200 201 (201 / 200) (exp (201 / 200)))])"
    by blast
  have "train fw_demo notebook_globals (replicate 201 demo_batch) [demo_batch] [demo_batch] 1 20 []
        = (Inr (),
           [Done CollectParams, Done (BeginState 20 (Gpu 0))] @ d
           @ [Printed (TrainLog 0 200 201 (201 / 200) (exp (201 / 200))),
              Done WaitAll,
              Printed (EpochThroughput 0),
              Done (BeginState 20 (Gpu 0)),
              Done (AsInContext (fst demo_batch) (Gpu 0)),
              Done (AsInContext (snd demo_batch) (Gpu 0)),
              Done (Forward ((fst demo_batch)\<lparr>nd_ctx := Gpu 0\<rparr>) (Tup [Arr 0, Arr 0])),
              Done (NdDetach 2), Done (NdDetach 2),
              Done (Loss 2 ((snd demo_batch)\<lparr>nd_ctx := Gpu 0\<rparr>)),
              Done AsScalar,
              Printed (ValidReport 0 1 (exp 1)),
              Done (BeginState 20 (Gpu 0)),
              Done (AsInContext (fst demo_batch) (Gpu 0)),
              Done (AsInContext (snd demo_batch) (Gpu 0)),
              Done (Forward ((fst demo_batch)\<lparr>nd_ctx := Gpu 0\<rparr>) (Tup [Arr 0, Arr 0])),
              Done (NdDetach 2), Done (NdDetach 2),
              Done (Loss 2 ((snd demo_batch)\<lparr>nd_ctx := Gpu 0\<rparr>)),
              Done AsScalar,
              Done (SaveParameters ''standard_lstm_lm_200_wikitext-2-0.params''),
              Printed (TestReport 1 (exp 1)),
              Printed TotalThroughput])"
    by (simp add: train_def train_epoch_def epoch_end_def run_defs demo_simps notebook_fields
        notebook_params_file demo_evaluate tb upt_conv_Cons)
  moreover have "\<forall>lg out. fw_loss fw_demo lg (Loss out ((snd demo_batch)\<lparr>nd_ctx := Gpu 0\<rparr>))
                   = Inr [1, 1]"
    by (simp add: demo_simps demo_batch_def nd_size_def numeral_2_eq_2)
  ultimately show ?thesis by auto
qed

text \<open>
  The part of C2 about \<^verbatim>\<open>evaluate\<close> holds: when \<^verbatim>\<open>evaluate\<close> returns, it returns the sum
  of the per-token losses that the loss function answered, one vector per batch, divided
  by their number, which is not zero.
\<close>

theorem evaluate_returns_the_average_loss:
  assumes "evaluate fw data_source batch_size c lg = (Inr v, lg')"
  shows "\<exists>Ls. length Ls = length data_source \<and> concat Ls \<noteq> []
    \<and> v = sum_list (concat Ls) / real (length (concat Ls))
    \<and> (\<forall>L \<in> set Ls. \<exists>l out y. fw_loss fw l (Loss out y) = Inr L)"
proof -
  from assms obtain h t k h' l1 where
    r: "evaluate_loop fw c data_source (0, 0, h) (lg @ [Done (BeginState batch_size c)])
          = (Inr (t, k, h'), l1)"
    and k: "k \<noteq> 0" and v: "v = t / real k"
    unfolding evaluate_def by (auto simp: success_iffs branch_iffs)
  from evaluate_loop_totals[OF r] obtain Ls where
    Ls: "length Ls = length data_source" "t = 0 + sum_list (concat Ls)"
    "k = 0 + length (concat Ls)"
    "\<forall>L \<in> set Ls. \<exists>l out y. fw_loss fw l (Loss out y) = Inr L"
    by blast
  show ?thesis
    by (rule exI[of _ Ls]) (use Ls k v in auto)
qed

theorem evaluate_returns_the_average_loss_witness:
  "fst (evaluate fw_demo [demo_batch] 20 (Gpu 0) []) = Inr 1
   \<and> (\<exists>Ls. length Ls = length [demo_batch] \<and> concat Ls \<noteq> []
        \<and> (1::real) = sum_list (concat Ls) / real (length (concat Ls))
        \<and> (\<forall>L \<in> set Ls. \<exists>l out y. fw_loss fw_demo l (Loss out y) = Inr L))"
proof -
  note ex = evaluate_returns_the_average_loss[OF demo_evaluate[of "[]"]]
  have "fst (evaluate fw_demo [demo_batch] 20 (Gpu 0) []) = Inr 1"
    unfolding demo_evaluate by simp
  with ex show ?thesis by (intro conjI)
qed

text \<open>
  C3. Backpropagation through time is truncated to one window per update. In every
  training iteration \<^verbatim>\<open>detach\<close> is applied to the hidden states before the recording
  block, so every forward pass is given a hidden state whose arrays are all detached, and
  it runs over the rows of one batch: at most \<open>bptt\<close> time steps (35 when \<^verbatim>\<open>train\<close> is
  called) for batches of at most \<open>bptt\<close> rows. In \<^verbatim>\<open>evaluate\<close> the hidden state is
  detached between batches: every forward pass after the first is given a detached hidden
  state. The contracts of \<^verbatim>\<open>NDArray.detach\<close> and of \<^verbatim>\<open>split_and_load\<close> are hypotheses.
\<close>

theorem hidden_states_detached_every_window:
  assumes dc: "detach_contract fw depth" and sc: "split_contract fw"
  shows "(train_batch fw g ps epoch n i (data, target) (total_L, hiddens) lg = (Inr s', lg')
            \<and> length (nd_rows data) \<le> bptt
          \<longrightarrow> list_all (\<lambda>(X, h). detached depth h \<and> length (nd_rows X) \<le> bptt)
                (forward_calls (drop (length lg) lg')))
       \<and> (evaluate_loop fw c batches s lg0 = (Inr r, lg1)
          \<longrightarrow> list_all (\<lambda>(X, h). detached depth h)
                (tl (forward_calls (drop (length lg0) lg1))))"
proof (intro conjI impI)
  assume a: "train_batch fw g ps epoch n i (data, target) (total_L, hiddens) lg = (Inr s', lg')
            \<and> length (nd_rows data) \<le> bptt"
  obtain total_L' hiddens_out where s': "s' = (total_L', hiddens_out)" by (cases s')
  from a[THEN conjunct1, unfolded s'] obtain data_list target_list hiddens' d_det L Ls d_dev grads
    where
    s1: "fw_split_and_load fw lg (SplitAndLoad data (g_context g) 1 True) = Inr data_list" and
    dt: "detach_list fw hiddens
       (lg @ [Done (SplitAndLoad data (g_context g) 1 True),
              Done (SplitAndLoad target (g_context g) 1 True)])
     = (Inr hiddens',
        lg @ [Done (SplitAndLoad data (g_context g) 1 True),
              Done (SplitAndLoad target (g_context g) 1 True)] @ d_det)" and
    dv: "device_loop fw g 0 (zip data_list (zip target_list hiddens')) (None, [], hiddens')
       (lg @ [Done (SplitAndLoad data (g_context g) 1 True),
              Done (SplitAndLoad target (g_context g) 1 True)] @ d_det @ [Enter])
     = (Inr (Some L, Ls, hiddens_out),
        lg @ [Done (SplitAndLoad data (g_context g) 1 True),
              Done (SplitAndLoad target (g_context g) 1 True)] @ d_det @ [Enter] @ d_dev)" and
    lg': "lg' = lg @ [Done (SplitAndLoad data (g_context g) 1 True),
              Done (SplitAndLoad target (g_context g) 1 True)] @ d_det @ [Enter] @ d_dev
           @ [Exit, Done (Backward L)]
           @ map (\<lambda>(p, x). Done (Grad p (nd_ctx x))) (List.product ps data_list)
           @ [Done (ClipGlobalNorm grads (g_grad_clip g)), Done (TrainerStep 1)]
           @ replicate (length Ls) (Done AsScalar)
           @ (if i mod g_log_interval g = 0 \<and> 0 < i
              then [Printed (TrainLog epoch i n
                      ((total_L + (\<Sum>l\<leftarrow>Ls. sum_list l)) / real (g_log_interval g))
                      (exp ((total_L + (\<Sum>l\<leftarrow>Ls. sum_list l)) / real (g_log_interval g))))]
              else [])"
    by (rule train_batch_success)
  let ?xs = "zip data_list (zip target_list hiddens')"
  from detach_success(2)[OF dt] have det: "list_all is_detach d_det" by auto
  have hd: "list_all (detached depth) hiddens'" using detach_list_detached[OF dc dt] .
  have rows: "list_all (\<lambda>x. length (nd_rows x) = length (nd_rows data)) data_list"
    using sc s1 unfolding split_contract_def by blast
  from device_loop_success[OF dv] obtain d0 where
    d0: "lg @ [Done (SplitAndLoad data (g_context g) 1 True),
              Done (SplitAndLoad target (g_context g) 1 True)] @ d_det @ [Enter] @ d_dev
         = (lg @ [Done (SplitAndLoad data (g_context g) 1 True),
              Done (SplitAndLoad target (g_context g) 1 True)] @ d_det @ [Enter]) @ d0"
    and fc0: "forward_calls d0 = map (\<lambda>(X, y, h). (X, h)) ?xs"
    by blast
  from d0 have "d0 = d_dev" by simp
  note fc = fc0[unfolded this]
  have delta: "forward_calls (drop (length lg) lg') = forward_calls d_dev"
    unfolding lg'
    by (simp add: forward_calls_simps detach_entries_silent[OF det] grad_entries_silent
        scalar_entries_silent)
  have "\<forall>Xh \<in> set (map (\<lambda>(X, y, h). (X, h)) ?xs).
          detached depth (snd Xh) \<and> length (nd_rows (fst Xh)) \<le> bptt"
  proof
    fix Xh assume "Xh \<in> set (map (\<lambda>(X, y, h). (X, h)) ?xs)"
    then obtain X y h where m: "(X, y, h) \<in> set ?xs" and Xh: "Xh = (X, h)" by auto
    from m have "X \<in> set data_list" by (rule set_zip_leftD)
    moreover from m have "(y, h) \<in> set (zip target_list hiddens')" by (rule set_zip_rightD)
    then have "h \<in> set hiddens'" by (rule set_zip_rightD)
    ultimately show "detached depth (snd Xh) \<and> length (nd_rows (fst Xh)) \<le> bptt"
      using hd rows a Xh by (auto simp: list_all_iff)
  qed
  then show "list_all (\<lambda>(X, h). detached depth h \<and> length (nd_rows X) \<le> bptt)
                (forward_calls (drop (length lg) lg'))"
    unfolding delta fc list_all_iff by (auto simp: case_prod_beta)
next
  assume a: "evaluate_loop fw c batches s lg0 = (Inr r, lg1)"
  obtain t k h where s: "s = (t, k, h)" by (cases s)
  from evaluate_loop_forwards[OF dc a[unfolded s]] obtain d where
    d: "lg1 = lg0 @ d" and
    fc: "forward_calls d = []
        \<or> (\<exists>X rest. forward_calls d = (X, h) # rest \<and> list_all (\<lambda>(X, h). detached depth h) rest)"
    by blast
  from fc show "list_all (\<lambda>(X, h). detached depth h) (tl (forward_calls (drop (length lg0) lg1)))"
    unfolding d by auto
qed

theorem hidden_states_detached_every_window_witness:
  "detach_contract fw_demo id \<and> split_contract fw_demo
   \<and> fst (train_batch fw_demo notebook_globals [''weight''] 0 1 0 (fst demo_batch, snd demo_batch)
           (0, [Tup [Arr 5, Arr 5]]) []) = Inr (1, [Tup [Arr 2, Arr 2]])
   \<and> length (nd_rows (fst demo_batch)) \<le> 35
   \<and> forward_calls (snd (train_batch fw_demo notebook_globals [''weight''] 0 1 0
                           (fst demo_batch, snd demo_batch) (0, [Tup [Arr 5, Arr 5]]) []))
       = [((fst demo_batch)\<lparr>nd_ctx := Gpu 0\<rparr>, Tup [Arr 0, Arr 0])]
   \<and> list_all (\<lambda>(X, h). detached id h \<and> length (nd_rows X) \<le> 35)
        (forward_calls (drop (length ([] :: nat entry list))
           (snd (train_batch fw_demo notebook_globals [''weight''] 0 1 0
                   (fst demo_batch, snd demo_batch) (0, [Tup [Arr 5, Arr 5]]) []))))
   \<and> fst (evaluate_loop fw_demo (Gpu 0) [demo_batch, demo_batch] (0, 0, Tup [Arr 5, Arr 5]) [])
       = Inr (4, 4, Tup [Arr 0, Arr 0])
   \<and> map snd (forward_calls
        (snd (evaluate_loop fw_demo (Gpu 0) [demo_batch, demo_batch] (0, 0, Tup [Arr 5, Arr 5]) [])))
       = [Tup [Arr 5, Arr 5], Tup [Arr 0, Arr 0]]
   \<and> list_all (\<lambda>(X, h). detached id h)
        (tl (forward_calls (drop (length ([] :: nat entry list))
           (snd (evaluate_loop fw_demo (Gpu 0) [demo_batch, demo_batch]
                   (0, 0, Tup [Arr 5, Arr 5]) [])))))"
proof -
  have rows: "length (nd_rows (fst demo_batch)) \<le> 35" by (simp add: demo_batch_def)
  note th = hidden_states_detached_every_window[OF demo_contracts,
      of notebook_globals "[''weight'']" 0 1 0 "fst demo_batch" "snd demo_batch" 0
         "[Tup [Arr 5, Arr 5]]" "[]" _ _ 35 "Gpu 0" "[demo_batch, demo_batch]"
         "(0, 0, Tup [Arr 5, Arr 5])" "[]"]
  from th[THEN conjunct1, rule_format, OF conjI[OF demo_deep_batch rows]]
  have a: "list_all (\<lambda>(X, h). detached id h \<and> length (nd_rows X) \<le> 35)
        (forward_calls (drop (length ([] :: nat entry list))
           (snd (train_batch fw_demo notebook_globals [''weight''] 0 1 0
                   (fst demo_batch, snd demo_batch) (0, [Tup [Arr 5, Arr 5]]) []))))"
    unfolding demo_deep_batch snd_conv .
  from th[THEN conjunct2, rule_format, OF demo_evaluate_loop]
  have b: "list_all (\<lambda>(X, h). detached id h)
        (tl (forward_calls (drop (length ([] :: nat entry list))
           (snd (evaluate_loop fw_demo (Gpu 0) [demo_batch, demo_batch]
                   (0, 0, Tup [Arr 5, Arr 5]) [])))))"
    unfolding demo_evaluate_loop snd_conv .
  have c: "forward_calls (snd (train_batch fw_demo notebook_globals [''weight''] 0 1 0
                           (fst demo_batch, snd demo_batch) (0, [Tup [Arr 5, Arr 5]]) []))
       = [((fst demo_batch)\<lparr>nd_ctx := Gpu 0\<rparr>, Tup [Arr 0, Arr 0])]"
    unfolding demo_deep_batch snd_conv by (simp add: forward_calls_simps)
  have d: "map snd (forward_calls
        (snd (evaluate_loop fw_demo (Gpu 0) [demo_batch, demo_batch] (0, 0, Tup [Arr 5, Arr 5]) [])))
       = [Tup [Arr 5, Arr 5], Tup [Arr 0, Arr 0]]"
    unfolding demo_evaluate_loop snd_conv by (simp add: forward_calls_simps)
  have e: "fst (train_batch fw_demo notebook_globals [''weight''] 0 1 0 (fst demo_batch, snd demo_batch)
           (0, [Tup [Arr 5, Arr 5]]) []) = Inr (1, [Tup [Arr 2, Arr 2]])"
    unfolding demo_deep_batch by simp
  have f: "fst (evaluate_loop fw_demo (Gpu 0) [demo_batch, demo_batch] (0, 0, Tup [Arr 5, Arr 5]) [])
       = Inr (4, 4, Tup [Arr 0, Arr 0])"
    unfolding demo_evaluate_loop by simp
  from demo_contracts e rows c a f d b show ?thesis by (intro conjI)
qed










text \<open>
  C8, as the code has it. For every data source longer than \<open>bptt + 1\<close> (\<open>bptt\<close> is 2000
  at call time), \<^verbatim>\<open>evaluate_cache\<close> returns at the start of the second window with
  \<open>total_L / bptt\<close>: the cache cell is called once, on the first \<open>bptt\<close> rows as data and on
  rows 1 to \<open>bptt\<close> as targets, \<open>total_L\<close> is the sum of \<open>- ln out\<close> over the cell's
  outputs divided by the number of columns, and the last thing logged is the print of
  \<open>exp (total_L / bptt)\<close>. So the first \<open>bptt + 1\<close> rows are read and every later row is
  ignored: two sources that agree on their first \<open>bptt + 1\<close> rows run the same.
\<close>

theorem evaluate_cache_stops_after_first_window:
  assumes "0 < bptt" and "bptt + 1 < len ds"
  shows "(\<forall>ds'. bptt + 1 < len ds'
            \<and> take (nat bptt + 1) (nd_rows ds') = take (nat bptt + 1) (nd_rows ds)
            \<and> nd_cols ds' = nd_cols ds \<and> nd_ctx ds' = nd_ctx ds
          \<longrightarrow> evaluate_cache fw bptt ds' bs c = evaluate_cache fw bptt ds bs c)
       \<and> (\<forall>lg v lg'. evaluate_cache fw bptt ds bs c lg = (Inr v, lg') \<longrightarrow>
            (\<exists>h outs nwh ch h'.
                fw_begin_state fw lg (BeginState bs c) = Inr h
              \<and> fw_cache_forward fw
                    (lg @ [Done (BeginState bs c),
                           Done (AsInContext (ds\<lparr>nd_rows := take (nat bptt) (nd_rows ds)\<rparr>) c),
                           Done (AsInContext (ds\<lparr>nd_rows := take (nat bptt) (drop 1 (nd_rows ds))\<rparr>) c)])
                    (CacheForward (ds\<lparr>nd_rows := take (nat bptt) (nd_rows ds), nd_ctx := c\<rparr>)
                       (ds\<lparr>nd_rows := take (nat bptt) (drop 1 (nd_rows ds)), nd_ctx := c\<rparr>)
                       None None h)
                  = Inr (outs, nwh, ch, h')
              \<and> v = (\<Sum>out\<leftarrow>outs. - ln out) / real (nd_cols ds) / real_of_int bptt
              \<and> cache_windows (drop (length lg) lg')
                  = [(ds\<lparr>nd_rows := take (nat bptt) (nd_rows ds), nd_ctx := c\<rparr>,
                      ds\<lparr>nd_rows := take (nat bptt) (drop 1 (nd_rows ds)), nd_ctx := c\<rparr>)]
              \<and> last lg' = Printed (CacheBatch bptt (exp v))))"
  using evaluate_cache_prefix[OF assms] evaluate_cache_long_success[OF assms]
  by blast

theorem evaluate_cache_stops_after_first_window_witness:
  "(0::int) < 2 \<and> 2 + 1 < len source_5
   \<and> evaluate_cache fw_demo 2 (source_5\<lparr>nd_rows := nd_rows source_5 @ [[99]]\<rparr>) 1 (Gpu 0)
       = evaluate_cache fw_demo 2 source_5 1 (Gpu 0)
   \<and> evaluate_cache fw_demo 2 source_5 1 (Gpu 0) []
       = (Inr 0,
          [Done (BeginState 1 (Gpu 0)),
           Done (AsInContext \<lparr>nd_rows = [[10], [11]], nd_cols = 1, nd_ctx = Cpu 0\<rparr> (Gpu 0)),
           Done (AsInContext \<lparr>nd_rows = [[11], [12]], nd_cols = 1, nd_ctx = Cpu 0\<rparr> (Gpu 0)),
           Done (CacheForward \<lparr>nd_rows = [[10], [11]], nd_cols = 1, nd_ctx = Gpu 0\<rparr>
                   \<lparr>nd_rows = [[11], [12]], nd_cols = 1, nd_ctx = Gpu 0\<rparr>
                   None None (Tup [Arr 0, Arr 0])),
           Done AsScalar, Done AsScalar,
           Done (NdDetach 0), Done (NdDetach 0),
           Printed (CacheBatch 2 1)])"
proof -
  have h1: "(0::int) < 2" by simp
  have h2: "2 + 1 < len source_5" by (simp add: source_5_def len_def)
  have h3: "2 + 1 < len (source_5\<lparr>nd_rows := nd_rows source_5 @ [[99]]\<rparr>)"
    by (simp add: source_5_def len_def)
  have eq: "evaluate_cache fw_demo 2 (source_5\<lparr>nd_rows := nd_rows source_5 @ [[99]]\<rparr>) 1 (Gpu 0)
       = evaluate_cache fw_demo 2 source_5 1 (Gpu 0)"
    using evaluate_cache_stops_after_first_window[OF h1 h2, of fw_demo 1 "Gpu 0"] h3
    by (simp add: source_5_def)
  have run: "evaluate_cache fw_demo 2 source_5 1 (Gpu 0) []
       = (Inr 0,
          [Done (BeginState 1 (Gpu 0)),
           Done (AsInContext \<lparr>nd_rows = [[10], [11]], nd_cols = 1, nd_ctx = Cpu 0\<rparr> (Gpu 0)),
           Done (AsInContext \<lparr>nd_rows = [[11], [12]], nd_cols = 1, nd_ctx = Cpu 0\<rparr> (Gpu 0)),
           Done (CacheForward \<lparr>nd_rows = [[10], [11]], nd_cols = 1, nd_ctx = Gpu 0\<rparr>
                   \<lparr>nd_rows = [[11], [12]], nd_cols = 1, nd_ctx = Gpu 0\<rparr>
                   None None (Tup [Arr 0, Arr 0])),
           Done AsScalar, Done AsScalar,
           Done (NdDetach 0), Done (NdDetach 0),
           Printed (CacheBatch 2 1)])"
    unfolding evaluate_cache_long[OF h1 h2 get_batch_first[OF h1 h2]]
    by (simp add: source_5_def fw_demo_def then_do_def invoke_def ret_def printed_def)
  show ?thesis using h1 h2 eq run by simp
qed

text \<open>
  The claim as it was stated says that only the first \<open>bptt\<close> tokens matter. The two
  sources below have 2002 rows and the same first 2000 rows; they differ in row 2000, the
  last target of the first window, and \<^verbatim>\<open>evaluate_cache\<close> returns 0 on one and
  \<open>1 / 2000\<close> on the other.
\<close>

theorem token_after_the_window_is_read:
  "2000 + 1 < len source_a \<and> 2000 + 1 < len source_b
   \<and> take 2000 (nd_rows source_a) = take 2000 (nd_rows source_b)
   \<and> nd_cols source_a = nd_cols source_b \<and> nd_ctx source_a = nd_ctx source_b
   \<and> fst (evaluate_cache fw_probe 2000 source_a 1 (Gpu 0) []) = Inr 0
   \<and> fst (evaluate_cache fw_probe 2000 source_b 1 (Gpu 0) []) = Inr (1 / 2000)"
proof -
  have h1: "(0::int) < 2000" by simp
  have a: "2000 + 1 < len source_a" by (simp add: source_a_def len_def)
  have b: "2000 + 1 < len source_b" by (simp add: source_b_def len_def)
  have ra: "fst (evaluate_cache fw_probe 2000 source_a 1 (Gpu 0) []) = Inr 0"
    unfolding evaluate_cache_long[OF h1 a get_batch_first[OF h1 a]]
    by (simp add: source_a_def probe_simps probe_effect then_do_def invoke_def ret_def printed_def
        outs_loop_total[OF probe_effect] sum_list_replicate)
  have rb: "fst (evaluate_cache fw_probe 2000 source_b 1 (Gpu 0) []) = Inr (1 / 2000)"
    unfolding evaluate_cache_long[OF h1 b get_batch_first[OF h1 b]]
    by (simp add: source_b_def probe_simps probe_effect then_do_def invoke_def ret_def printed_def
        outs_loop_total[OF probe_effect] sum_list_replicate)
  show ?thesis using a b ra rb by (simp add: source_a_def source_b_def)
qed

text \<open>
  C9. For every data source and every index \<open>i\<close> with \<open>0 \<le> i \<le> len(data_source) - 2\<close>,
  \<^verbatim>\<open>get_batch(data_source, i)\<close> returns two arrays of the same length
  \<open>min(bptt, len(data_source) - 1 - i)\<close>, and at every position \<open>k\<close> the data row is row
  \<open>i + k\<close> of the source and the target row is row \<open>i + 1 + k\<close>: the target is the data
  shifted forward by one token. \<^verbatim>\<open>bptt\<close> is the notebook's window length, a
  non-negative number.
\<close>

theorem get_batch_shifted_window:
  assumes "0 \<le> bptt" and "0 \<le> i" and "i \<le> len data_source - 2"
    and "get_batch bptt data_source i None = (data, target)"
  shows "len data = min bptt (len data_source - 1 - i)
       \<and> len target = min bptt (len data_source - 1 - i)
       \<and> (\<forall>k < length (nd_rows data).
             nd_rows data ! k = nd_rows data_source ! (nat i + k)
           \<and> nd_rows target ! k = nd_rows data_source ! (nat i + 1 + k))"
proof -
  define n where "n = len data_source"
  define s where "s = min bptt (n - 1 - i)"
  have s: "0 \<le> s" "i + s \<le> n" "i + 1 + s \<le> n"
    using assms(1-3) by (auto simp: s_def n_def)
  have d: "nd_rows data = take (nat s) (drop (nat i) (nd_rows data_source))"
    using assms(2,4) s
    by (auto simp: get_batch_def py_slice_def slice_bound_def Let_def n_def[symmetric]
        s_def[symmetric])
  have t: "nd_rows target = take (nat s) (drop (nat (i + 1)) (nd_rows data_source))"
    using assms(2,4) s
    by (auto simp: get_batch_def py_slice_def slice_bound_def Let_def n_def[symmetric]
        s_def[symmetric])
  have ln: "int (length (nd_rows data_source)) = n"
    by (simp add: n_def len_def)
  have l1: "len data = s"
    using s ln assms(2) unfolding len_def d by (auto simp: min_def)
  have l2: "len target = s"
    using s ln assms(2) unfolding len_def t by (auto simp: min_def)
  have nth: "nd_rows data ! k = nd_rows data_source ! (nat i + k)
           \<and> nd_rows target ! k = nd_rows data_source ! (nat i + 1 + k)"
    if "k < length (nd_rows data)" for k
  proof -
    have k: "int k < s" using that l1 by (simp add: len_def)
    have "nat i + k < length (nd_rows data_source)"
      using k s ln assms(2) by linarith
    moreover have "nat (i + 1) + k < length (nd_rows data_source)"
      using k s ln assms(2) by linarith
    moreover have "nat (i + 1) = nat i + 1" using assms(2) by simp
    ultimately show ?thesis
      using k unfolding d t by (simp add: add.commute)
  qed
  show ?thesis using l1 l2 nth by (simp add: s_def n_def)
qed

theorem get_batch_shifted_window_witness:
  "get_batch 2 \<lparr>nd_rows = [[10], [11], [12], [13], [14]], nd_cols = 1, nd_ctx = Cpu 0\<rparr> 1 None
     = (\<lparr>nd_rows = [[11], [12]], nd_cols = 1, nd_ctx = Cpu 0\<rparr>,
        \<lparr>nd_rows = [[12], [13]], nd_cols = 1, nd_ctx = Cpu 0\<rparr>)
   \<and> len \<lparr>nd_rows = [[11], [12]], nd_cols = 1, nd_ctx = Cpu 0\<rparr> = 2
   \<and> len \<lparr>nd_rows = [[12], [13]], nd_cols = 1, nd_ctx = Cpu 0\<rparr> = 2"
proof -
  have g: "get_batch 2 \<lparr>nd_rows = [[10], [11], [12], [13], [14]], nd_cols = 1, nd_ctx = Cpu 0\<rparr> 1 None
     = (\<lparr>nd_rows = [[11], [12]], nd_cols = 1, nd_ctx = Cpu 0\<rparr>,
        \<lparr>nd_rows = [[12], [13]], nd_cols = 1, nd_ctx = Cpu 0\<rparr>)"
    by (simp add: get_batch_def py_slice_def slice_bound_def len_def Let_def)
  have "len \<lparr>nd_rows = [[11], [12]], nd_cols = 1, nd_ctx = Cpu 0\<rparr>
          = min 2 (len \<lparr>nd_rows = [[10], [11], [12], [13], [14]], nd_cols = 1, nd_ctx = Cpu 0\<rparr> - 1 - 1)
      \<and> len \<lparr>nd_rows = [[12], [13]], nd_cols = 1, nd_ctx = Cpu 0\<rparr>
          = min 2 (len \<lparr>nd_rows = [[10], [11], [12], [13], [14]], nd_cols = 1, nd_ctx = Cpu 0\<rparr> - 1 - 1)
      \<and> (\<forall>k < length (nd_rows \<lparr>nd_rows = [[11], [12]], nd_cols = 1, nd_ctx = Cpu 0\<rparr>).
             nd_rows \<lparr>nd_rows = [[11], [12]], nd_cols = 1, nd_ctx = Cpu 0\<rparr> ! k
               = nd_rows \<lparr>nd_rows = [[10], [11], [12], [13], [14]], nd_cols = 1, nd_ctx = Cpu 0\<rparr> ! (nat 1 + k)
           \<and> nd_rows \<lparr>nd_rows = [[12], [13]], nd_cols = 1, nd_ctx = Cpu 0\<rparr> ! k
               = nd_rows \<lparr>nd_rows = [[10], [11], [12], [13], [14]], nd_cols = 1, nd_ctx = Cpu 0\<rparr> ! (nat 1 + 1 + k))"
    by (rule get_batch_shifted_window[OF _ _ _ g]) (simp_all add: len_def)
  then show ?thesis using g by (simp add: len_def)
qed



end
